theory Spec2Isabelle
  imports Main "HOL-Library.Word" "HOL-Library.Sublist" "HOL-Library.Char_ord"
    "HOL-Library.List_Lexorder"
begin

section \<open>Packets\<close>

text \<open>
  The packet structs live in package \<open>packet\<close> and \<open>plugin\<close>, outside the
  files at hand; the records below carry exactly the fields that the proxy code reads
  or writes (\<open>clientPlaySessionHandler.handleBackendJoinGame\<close>,
  \<open>handleChat\<close>, \<open>handleKeepAlive\<close>, \<open>connectedPlayer.SendMessagePosition\<close>).
  Go's \<open>int64\<close> is a 64-bit word, \<open>proto.Protocol\<close> and the remaining numeric
  fields are only copied or compared and are kept as integers, strings and byte
  slices are lists of bytes (Go's \<open>len\<close> counts bytes), a nullable pointer is an
  option, and \<open>uuid.Nil\<close> is the \<open>Sender\<close> \<open>None\<close>.
\<close>

type_synonym int64 = "64 word"
type_synonym Protocol = int

datatype MessagePosition = ChatMessage | SystemMessage | ActionBarMessage

record Chat =
  Message :: string
  Type :: MessagePosition
  Sender :: "nat option"

record plugin_Message =
  Channel :: string
  Data :: string

record JoinGame =
  Dimension :: int
  PartialHashedSeed :: int64
  Difficulty :: int
  Gamemode :: int
  LevelType :: "string option"
  DimensionInfo :: "nat option"
  PreviousGamemode :: int
  CurrentDimensionData :: "nat option"

record Respawn =
  rDimension :: int
  rPartialHashedSeed :: int64
  rDifficulty :: int
  rGamemode :: int
  rLevelType :: string
  rShouldKeepPlayerData :: bool
  rDimensionInfo :: "nat option"
  rPreviousGamemode :: int
  rCurrentDimensionData :: "nat option"

record Title =
  Action :: int
  Component :: "string option"

record KeepAlive =
  RandomId :: int64

datatype Packet =
    KeepAlivePacket KeepAlive
  | ChatPacket Chat
  | PluginMessagePacket plugin_Message
  | JoinGamePacket JoinGame
  | RespawnPacket Respawn
  | TitlePacket Title
  | OtherPacket nat

section \<open>Connections (\<open>pkg/proxy/connection.go\<close>)\<close>

datatype error = ErrClosedConn | ErrTransport

datatype Registry = Handshake | Status | Login | Play

text \<open>
  \<open>minecraftConn\<close>. The fields are those of the Go struct that the modelled
  methods touch:
  \<^item> \<open>closeOnce\<close> is true once \<open>sync.Once\<close> has run its function;
  \<^item> \<open>closed\<close>, \<open>knownDisconnect\<close> are the two atomic flags;
  \<^item> \<open>cancelled\<close> records that \<open>cancelFunc\<close> was called (the read loop has
    set it: a connection is used only after \<open>readLoop\<close> started);
  \<^item> \<open>sessionHandler\<close> tells whether a handler is installed (non-nil), and
    \<open>disconnectedCalls\<close> counts the calls of its \<open>disconnected()\<close>;
  \<^item> \<open>writeBuf\<close> holds the packets encoded into the \<open>bufio.Writer\<close> and not
    yet flushed, \<open>wire\<close> the packets that reached the socket;
  \<^item> \<open>net\<close> is the behaviour of the transport: the outcomes (True for success)
    of the coming operations on the encoder and the socket, in order; once the
    list is used up every operation succeeds. Any finite run meets only finitely
    many outcomes, so every pattern of failures is one such list.
\<close>

record minecraftConn =
  closeOnce :: bool
  closed :: bool
  knownDisconnect :: bool
  cancelled :: bool
  sessionHandler :: bool
  disconnectedCalls :: nat
  writeBuf :: "Packet list"
  wire :: "Packet list"
  protocol :: Protocol
  state :: Registry
  net :: "bool list"

text \<open>One operation of the transport: it takes the next outcome of \<open>net\<close>.\<close>

definition transport :: "minecraftConn \<Rightarrow> error option \<times> minecraftConn" where
  "transport c =
     (case net c of
        [] \<Rightarrow> (None, c)
      | ok # rest \<Rightarrow> (if ok then None else Some ErrTransport, c\<lparr>net := rest\<rparr>))"

text \<open>\<open>c.encoder.WritePacket(packet)\<close>: on success the packet is in the write buffer.\<close>

definition encoder_WritePacket :: "Packet \<Rightarrow> minecraftConn \<Rightarrow> error option \<times> minecraftConn" where
  "encoder_WritePacket p c =
     (case transport c of
        (None, c1) \<Rightarrow> (None, c1\<lparr>writeBuf := writeBuf c1 @ [p]\<rparr>)
      | (Some e, c1) \<Rightarrow> (Some e, c1))"

text \<open>
  \<open>c.c.SetWriteDeadline(deadline)\<close>: a socket that \<open>closeKnown\<close> has closed
  refuses it (\<open>closed\<close> is stored right before \<open>c.c.Close()\<close>).
\<close>

definition SetWriteDeadline :: "minecraftConn \<Rightarrow> error option \<times> minecraftConn" where
  "SetWriteDeadline c = (if closed c then (Some ErrTransport, c) else transport c)"

text \<open>
  \<open>c.encoder.Sync(c.writeBuf.Flush)\<close>: on success the buffered packets are on the
  wire; a failed flush delivers no whole packet.
\<close>

definition encoder_Sync_Flush :: "minecraftConn \<Rightarrow> error option \<times> minecraftConn" where
  "encoder_Sync_Flush c =
     (case transport c of
        (None, c1) \<Rightarrow> (None, c1\<lparr>wire := wire c1 @ writeBuf c1, writeBuf := []\<rparr>)
      | (Some e, c1) \<Rightarrow> (Some e, c1))"

text \<open>\<open>c.c.Close()\<close>.\<close>

definition net_Close :: "minecraftConn \<Rightarrow> error option \<times> minecraftConn" where
  "net_Close c = transport c"

definition Closed :: "minecraftConn \<Rightarrow> bool" where
  "Closed c = closed c"

text \<open>
  \<open>closeKnown\<close>: the body given to \<open>closeOnce.Do\<close> runs only when the once has
  not fired; otherwise \<open>alreadyClosed\<close> stays true and \<open>ErrClosedConn\<close> is
  returned.
\<close>

definition closeKnown :: "bool \<Rightarrow> minecraftConn \<Rightarrow> error option \<times> minecraftConn" where
  "closeKnown markKnown c =
     (if closeOnce c then (Some ErrClosedConn, c)
      else
        let c1 = c\<lparr>closeOnce := True\<rparr>;
            c2 = (if markKnown then c1\<lparr>knownDisconnect := True\<rparr> else c1);
            c3 = c2\<lparr>cancelled := True\<rparr>;
            c4 = c3\<lparr>closed := True\<rparr>;
            (err, c5) = net_Close c4;
            c6 = (if sessionHandler c5
                  then c5\<lparr>disconnectedCalls := Suc (disconnectedCalls c5)\<rparr>
                  else c5)
        in (err, c6))"

definition close :: "minecraftConn \<Rightarrow> error option \<times> minecraftConn" where
  "close c = closeKnown True c"

definition closeOnErr :: "error option \<Rightarrow> minecraftConn \<Rightarrow> minecraftConn" where
  "closeOnErr err c = (case err of None \<Rightarrow> c | Some e \<Rightarrow> snd (close c))"

definition flush :: "minecraftConn \<Rightarrow> error option \<times> minecraftConn" where
  "flush c =
     (let (err, c1) =
            (case SetWriteDeadline c of
               (Some e, c1) \<Rightarrow> (Some e, c1)
             | (None, c1) \<Rightarrow> encoder_Sync_Flush c1)
      in (err, closeOnErr err c1))"

definition BufferPacket :: "Packet \<Rightarrow> minecraftConn \<Rightarrow> error option \<times> minecraftConn" where
  "BufferPacket p c =
     (if Closed c then (Some ErrClosedConn, c)
      else
        let (err, c1) = encoder_WritePacket p c
        in (err, closeOnErr err c1))"

definition WritePacket :: "Packet \<Rightarrow> minecraftConn \<Rightarrow> error option \<times> minecraftConn" where
  "WritePacket p c =
     (if Closed c then (Some ErrClosedConn, c)
      else
        let (err, c1) =
              (case BufferPacket p c of
                 (Some e, c1) \<Rightarrow> (Some e, c1)
               | (None, c1) \<Rightarrow> flush c1)
        in (err, closeOnErr err c1))"

text \<open>
  \<open>closeWith\<close>: the deferred function overwrites the result with that of
  \<open>c.close()\<close>, after the flag is stored and the packet is written.
\<close>

definition closeWith :: "Packet \<Rightarrow> minecraftConn \<Rightarrow> error option \<times> minecraftConn" where
  "closeWith p c =
     (if Closed c then (Some ErrClosedConn, c)
      else
        let c1 = c\<lparr>knownDisconnect := True\<rparr>;
            (werr, c2) = WritePacket p c1
        in close c2)"

text \<open>A sequence of calls of the three closing methods on one connection.\<close>

datatype closeCall = CallClose | CallCloseKnown bool | CallCloseWith Packet

fun runCall :: "closeCall \<Rightarrow> minecraftConn \<Rightarrow> error option \<times> minecraftConn" where
  "runCall CallClose c = close c"
| "runCall (CallCloseKnown markKnown) c = closeKnown markKnown c"
| "runCall (CallCloseWith p) c = closeWith p c"

fun runCalls :: "closeCall list \<Rightarrow> minecraftConn \<Rightarrow> minecraftConn" where
  "runCalls [] c = c"
| "runCalls (x # xs) c = runCalls xs (snd (runCall x c))"

section \<open>Collaborators outside the files at hand\<close>

text \<open>
  Modelled from the spec: the protocol numbers of \<open>proto.Minecraft_1_8\<close>,
  \<open>proto.Minecraft_1_12_2\<close>, \<open>proto.Minecraft_1_13\<close> and
  \<open>proto.Minecraft_1_16\<close> (package \<open>proto\<close> is missing) are the published
  numbers of these releases; \<open>Lower\<close> and \<open>GreaterEqual\<close> compare them.
\<close>

definition Minecraft_1_8 :: Protocol where "Minecraft_1_8 = 47"
definition Minecraft_1_12_2 :: Protocol where "Minecraft_1_12_2 = 340"
definition Minecraft_1_13 :: Protocol where "Minecraft_1_13 = 393"
definition Minecraft_1_15_2 :: Protocol where "Minecraft_1_15_2 = 578"
definition Minecraft_1_16 :: Protocol where "Minecraft_1_16 = 735"

definition Lower :: "Protocol \<Rightarrow> Protocol \<Rightarrow> bool" where
  "Lower p v = (p < v)"

definition GreaterEqual :: "Protocol \<Rightarrow> Protocol \<Rightarrow> bool" where
  "GreaterEqual p v = (v \<le> p)"

text \<open>
  Modelled from the spec: \<open>packet.MaxServerBoundMessageLength\<close> (package
  \<open>packet\<close> is missing) is the 256 of \<open>ErrTooLongChatMessage\<close>'s text.
\<close>

definition MaxServerBoundMessageLength :: nat where
  "MaxServerBoundMessageLength = 256"

text \<open>
  The functions and constants of packages \<open>plugin\<close>, \<open>forge\<close>,
  \<open>packet\<close> and \<open>sets\<close> and the helpers \<open>trimSpaces\<close> and \<open>extract\<close>
  (here \<open>extract'\<close>)
  that the modelled code calls and that are not in the files at hand. They are
  parameters of the model: every theorem holds for whatever they compute.
\<close>

record externals =
  plugin_Register :: "plugin_Message \<Rightarrow> bool"
  plugin_Unregister :: "plugin_Message \<Rightarrow> bool"
  plugin_LegacyRegister :: "plugin_Message \<Rightarrow> bool"
  plugin_LegacyUnregister :: "plugin_Message \<Rightarrow> bool"
  plugin_McBrand :: "plugin_Message \<Rightarrow> bool"
  plugin_Channels :: "plugin_Message \<Rightarrow> string list"
  plugin_RewriteMinecraftBrand :: "plugin_Message \<Rightarrow> Protocol \<Rightarrow> plugin_Message"
  plugin_ConstructChannelsPacket :: "Protocol \<Rightarrow> string list \<Rightarrow> plugin_Message"
  forge_LegacyHandshakeChannel :: string
  packet_NewResetTitle :: "Protocol \<Rightarrow> Title"
  UnsortedList :: "string set \<Rightarrow> string list"
  trimSpaces :: "string \<Rightarrow> string"
  extract' :: "string \<Rightarrow> string \<times> string list"

text \<open>\<open>strings.HasPrefix\<close> and \<open>strings.TrimPrefix\<close>.\<close>

definition HasPrefix :: "string \<Rightarrow> string \<Rightarrow> bool" where
  "HasPrefix s pre = prefix pre s"

definition TrimPrefix :: "string \<Rightarrow> string \<Rightarrow> string" where
  "TrimPrefix s pre = (if HasPrefix s pre then drop (length pre) s else s)"

text \<open>
  Package \<open>time\<close>. An instant is its number of nanoseconds since the Unix epoch,
  a \<open>Duration\<close> a number of nanoseconds. \<open>time.Unix(0, nsec)\<close> takes an
  \<open>int64\<close>; \<open>Time.Sub\<close> (behind \<open>time.Since\<close>) saturates at the ends of
  \<open>int64\<close>; \<open>Time.Nanosecond()\<close> is the offset within the second, in
  \<open>[0, 999999999]\<close>.
\<close>

definition Millisecond :: int64 where
  "Millisecond = 1000000"

definition time_Unix0 :: "int64 \<Rightarrow> int" where
  "time_Unix0 nsec = sint nsec"

definition time_Since :: "int \<Rightarrow> int \<Rightarrow> int" where
  "time_Since now t = max (- (2 ^ 63)) (min (2 ^ 63 - 1) (now - t))"

definition Nanosecond :: "int \<Rightarrow> int" where
  "Nanosecond now = now mod 1000000000"

section \<open>Players and their backends (\<open>connectedPlayer\<close>, \<open>serverConnection\<close>)\<close>

text \<open>
  Modelled from the spec: the phase objects of the Forge phase machine are missing.
  A backend phase is what the handler observes of it: whether it is
  \<open>inTransitionBackendPhase\<close> and what \<open>consideredComplete()\<close> answers. A
  client phase is the answer of \<open>handle(server, message)\<close> and of
  \<open>consideredComplete()\<close>; what \<open>handle\<close> and \<open>onFirstJoin\<close> do beyond
  that is recorded as a call.
\<close>

type_synonym addr = nat

record backendConnectionPhase =
  isInTransitionBackendPhase :: bool
  backendConsideredComplete :: bool

record clientConnectionPhase =
  handleAnswer :: "addr \<Rightarrow> plugin_Message \<Rightarrow> bool"
  clientConsideredComplete :: bool

text \<open>
  \<open>serverConnection\<close>: its struct is missing; the fields are those the code at
  hand reads through \<open>conn()\<close>, \<open>phase()\<close>, \<open>lastPingId\<close> and
  \<open>lastPingSent\<close>.
\<close>

record serverConnection =
  connection :: "minecraftConn option"
  serverPhase :: backendConnectionPhase
  lastPingId :: int64
  lastPingSent :: int64

datatype LoginStatus =
    SuccessfulLoginStatus
  | ConflictingLoginStatus
  | CanceledByUserLoginStatus
  | CanceledByProxyLoginStatus

datatype event =
    DisconnectEvent LoginStatus
  | CommandExecuteEvent string
  | PlayerChatEvent string
  | PluginMessageEvent addr string string

text \<open>
  The calls into collaborators whose bodies are missing, in the order they are made.
\<close>

datatype call =
    Disconnect addr
  | UnregisterConnection
  | CompleteJoin addr
  | OnFirstJoin
  | PhaseHandle addr plugin_Message
  | Fire event
  | Invoke string "string list"

text \<open>
  The state one client Play session handler works on: the fields of its
  \<open>connectedPlayer\<close> (\<open>conn\<close> is the embedded \<open>*minecraftConn\<close>), its own
  fields \<open>spawned\<close> and \<open>loginPluginMessages\<close>, the store of the
  \<open>serverConnection\<close> objects that the pointers \<open>connectedServer'\<close> (the
  field \<open>connectedServer_\<close>),
  \<open>connInFlight\<close> and \<open>destination\<close> address, what the handler asks of the
  proxy (is the player registered, which commands exist, which channels are
  registered), and the calls made so far. \<open>pluginChannelsMu\<close> is the number of
  read locks held on the mutex of that name.
\<close>

record session =
  conn :: minecraftConn
  ping :: int
  disconnectDueToDuplicateConnection :: bool
  pluginChannelsMu :: nat
  pluginChannels :: "string set"
  connectedServer' :: "addr option"
  connInFlight :: "addr option"
  connPhase :: clientConnectionPhase
  spawned :: bool
  loginPluginMessages :: "plugin_Message list"
  servers :: "addr \<Rightarrow> serverConnection"
  registered :: bool
  commands :: "string set"
  channelRegistrar :: "string \<Rightarrow> string option"
  calls :: "call list"

definition record_call :: "call \<Rightarrow> session \<Rightarrow> session" where
  "record_call x s = s\<lparr>calls := calls s @ [x]\<rparr>"

text \<open>
  Modelled from the spec: \<open>serverConnection.disconnect()\<close>,
  \<open>serverConnection.completeJoin()\<close>, \<open>serverConnection.ensureConnected()\<close>
  and \<open>connect.unregisterConnection\<close> are missing. A disconnect is recorded as a
  call. \<open>completeJoin\<close> "promotes it to currentServer". \<open>ensureConnected\<close>
  answers with the backend connection when there is one. \<open>unregisterConnection\<close>
  takes the player out of the registry and tells whether it was in.
\<close>

definition serverConnection_disconnect :: "addr \<Rightarrow> session \<Rightarrow> session" where
  "serverConnection_disconnect a s = record_call (Disconnect a) s"

definition completeJoin :: "addr \<Rightarrow> session \<Rightarrow> session" where
  "completeJoin a s = record_call (CompleteJoin a) (s\<lparr>connectedServer' := Some a\<rparr>)"

definition ensureConnected :: "addr \<Rightarrow> session \<Rightarrow> minecraftConn option" where
  "ensureConnected a s = connection (servers s a)"

definition unregisterConnection :: "session \<Rightarrow> bool \<times> session" where
  "unregisterConnection s = (registered s, record_call UnregisterConnection (s\<lparr>registered := False\<rparr>))"

text \<open>\<open>p.proxy.event.Fire\<close>: the event reaches the bus.\<close>

definition event_Fire :: "event \<Rightarrow> session \<Rightarrow> session" where
  "event_Fire e s = record_call (Fire e) s"

subsection \<open>\<open>connectedPlayer\<close> (part 000)\<close>

definition connectionInFlight :: "session \<Rightarrow> addr option" where
  "connectionInFlight s = connInFlight s"

definition connectedServer :: "session \<Rightarrow> addr option" where
  "connectedServer s = connectedServer' s"

definition phase :: "session \<Rightarrow> clientConnectionPhase" where
  "phase s = connPhase s"

definition Active :: "session \<Rightarrow> bool" where
  "Active s = (\<not> Closed (conn s))"

definition knownChannels :: "session \<Rightarrow> string set" where
  "knownChannels s = pluginChannels s"

text \<open>
  \<open>teardown\<close>: both backends are disconnected when present, then the answer of
  \<open>unregisterConnection\<close> and the two flags choose the status of the event.
\<close>

definition teardown :: "session \<Rightarrow> session" where
  "teardown s =
     (let inFlight = connInFlight s;
          current = connectedServer' s;
          s1 = (case inFlight of None \<Rightarrow> s | Some a \<Rightarrow> serverConnection_disconnect a s);
          s2 = (case current of None \<Rightarrow> s1 | Some a \<Rightarrow> serverConnection_disconnect a s1);
          (found, s3) = unregisterConnection s2;
          status =
            (if found
             then (if disconnectDueToDuplicateConnection s3
                   then ConflictingLoginStatus else SuccessfulLoginStatus)
             else (if knownDisconnect (conn s3)
                   then CanceledByProxyLoginStatus else CanceledByUserLoginStatus))
      in event_Fire (DisconnectEvent status) s3)"

text \<open>
  A method of the player's own connection, called through the embedded
  \<open>*minecraftConn\<close>. The session handler of that connection is this client Play
  handler, whose \<open>disconnected()\<close> is \<open>c.player.teardown()\<close>: when the
  connection reports that the callback ran, teardown has run.
\<close>

definition onPlayerConn ::
  "(minecraftConn \<Rightarrow> error option \<times> minecraftConn) \<Rightarrow> session \<Rightarrow> error option \<times> session" where
  "onPlayerConn f s =
     (let (err, c') = f (conn s);
          s' = s\<lparr>conn := c'\<rparr>
      in (err, if disconnectedCalls (conn s) < disconnectedCalls c' then teardown s' else s'))"

text \<open>
  A method of the backend connection \<open>serverMc\<close> that \<open>conn()\<close> of the
  \<open>serverConnection\<close> at address \<open>a\<close> returned. Every caller has checked that
  it is not nil.
\<close>

definition onServerConn ::
  "addr \<Rightarrow> (minecraftConn \<Rightarrow> error option \<times> minecraftConn) \<Rightarrow> session \<Rightarrow> error option \<times> session" where
  "onServerConn a f s =
     (case connection (servers s a) of
        None \<Rightarrow> (Some ErrClosedConn, s)
      | Some serverMc \<Rightarrow>
          let (err, c') = f serverMc
          in (err, s\<lparr>servers := (servers s)(a := (servers s a)\<lparr>connection := Some c'\<rparr>)\<rparr>))"

text \<open>
  \<open>lockedKnownChannels\<close> releases a read lock before it runs \<open>fn\<close> and takes
  one afterwards. Releasing a read lock of an \<open>RWMutex\<close> that holds none is a
  fatal error of the Go runtime: the result is \<open>None\<close>.
\<close>

definition lockedKnownChannels :: "(string set \<Rightarrow> string set) \<Rightarrow> session \<Rightarrow> session option" where
  "lockedKnownChannels fn s =
     (if pluginChannelsMu s = 0 then None
      else
        let s1 = s\<lparr>pluginChannelsMu := pluginChannelsMu s - 1\<rparr>;
            s2 = s1\<lparr>pluginChannels := fn (pluginChannels s1)\<rparr>
        in Some (s2\<lparr>pluginChannelsMu := pluginChannelsMu s2 + 1\<rparr>))"

definition ensureBackendConnection :: "session \<Rightarrow> addr option" where
  "ensureBackendConnection s =
     (case connectedServer' s of
        None \<Rightarrow> None
      | Some a \<Rightarrow> (case connection (servers s a) of None \<Rightarrow> None | Some serverMc \<Rightarrow> Some a))"

datatype api_error = ErrTooLongChatMessage | ErrNoBackendConnection | ErrConn error

definition SpoofChatInput :: "string \<Rightarrow> session \<Rightarrow> api_error option \<times> session" where
  "SpoofChatInput input s =
     (if length input > MaxServerBoundMessageLength then (Some ErrTooLongChatMessage, s)
      else
        (case ensureBackendConnection s of
           None \<Rightarrow> (Some ErrNoBackendConnection, s)
         | Some a \<Rightarrow>
             let (err, s1) =
                   onServerConn a
                     (WritePacket (ChatPacket \<lparr>Message = input, Type = ChatMessage, Sender = None\<rparr>)) s
             in (map_option ErrConn err, s1)))"

definition canForwardPluginMessage ::
  "externals \<Rightarrow> Protocol \<Rightarrow> plugin_Message \<Rightarrow> session \<Rightarrow> bool" where
  "canForwardPluginMessage ext protocol' message s =
     (let minecraftOrFmlMessage =
            (if protocol' \<le> Minecraft_1_12_2
             then (let channel = Channel message
                   in HasPrefix channel ''MC|'' \<or>
                      HasPrefix channel (forge_LegacyHandshakeChannel ext) \<or>
                      plugin_LegacyRegister ext message \<or> plugin_LegacyUnregister ext message)
             else HasPrefix (Channel message) ''minecraft:'')
      in minecraftOrFmlMessage \<or> Channel message \<in> knownChannels s)"

subsection \<open>\<open>clientPlaySessionHandler\<close> (part 001)\<close>

definition canForward :: "session \<Rightarrow> addr option" where
  "canForward s =
     (case connectedServer s of
        None \<Rightarrow> None
      | Some a \<Rightarrow>
          (case connection (servers s a) of
             None \<Rightarrow> None
           | Some serverMc \<Rightarrow>
               if backendConsideredComplete (serverPhase (servers s a)) then Some a else None))"

definition forwardToServer :: "Packet \<Rightarrow> session \<Rightarrow> session" where
  "forwardToServer p s =
     (case canForward s of
        None \<Rightarrow> s
      | Some a \<Rightarrow> snd (onServerConn a (WritePacket p) s))"

text \<open>
  \<open>handleKeepAlive\<close>. The clock is read twice: \<open>now1\<close> by \<open>time.Since\<close>,
  \<open>now2\<close> by \<open>time.Now()\<close> after the write.
\<close>

definition handleKeepAlive :: "int \<Rightarrow> int \<Rightarrow> KeepAlive \<Rightarrow> session \<Rightarrow> session" where
  "handleKeepAlive now1 now2 p s =
     (case connectedServer s of
        None \<Rightarrow> s
      | Some a \<Rightarrow>
          if RandomId p = lastPingId (servers s a) then
            (case connection (servers s a) of
               None \<Rightarrow> s
             | Some serverMc \<Rightarrow>
                 let sent = time_Unix0 (lastPingSent (servers s a) * Millisecond);
                     s1 = s\<lparr>ping := time_Since now1 sent\<rparr>;
                     (err, s2) = onServerConn a (WritePacket (KeepAlivePacket p)) s1
                 in if err = None
                    then s2\<lparr>servers := (servers s2)
                           (a := (servers s2 a)
                              \<lparr>lastPingSent := word_of_int (Nanosecond now2 div 1000000)\<rparr>)\<rparr>
                    else s2)
          else s)"

text \<open>\<open>c.player.phase().handle(target, packet)\<close>.\<close>

definition phase_handle :: "addr \<Rightarrow> plugin_Message \<Rightarrow> session \<Rightarrow> bool \<times> session" where
  "phase_handle target packet s =
     (handleAnswer (phase s) target packet, record_call (PhaseHandle target packet) s)"

text \<open>
  \<open>handlePluginMessage\<close>. \<open>allowed\<close> is the event's \<open>Allowed()\<close> once the
  subscribers of the \<open>PluginMessageEvent\<close> have run; its continuation is run
  right after the event is fired.
\<close>

definition handlePluginMessage ::
  "externals \<Rightarrow> bool \<Rightarrow> plugin_Message \<Rightarrow> session \<Rightarrow> session option" where
  "handlePluginMessage ext allowed packet s =
     (case connectedServer s of
        None \<Rightarrow> Some s
      | Some a \<Rightarrow>
          (case connection (servers s a) of
             None \<Rightarrow> Some s
           | Some backendConn \<Rightarrow>
               if state backendConn \<noteq> Play then Some s
               else if plugin_Register ext packet then
                 (let (err, s1) = onServerConn a (WritePacket (PluginMessagePacket packet)) s
                  in if err \<noteq> None
                     then lockedKnownChannels
                            (\<lambda>known. known \<union> set (plugin_Channels ext packet)) s1
                     else Some s1)
               else if plugin_Unregister ext packet then
                 (let (err, s1) = onServerConn a (WritePacket (PluginMessagePacket packet)) s
                  in if err \<noteq> None
                     then lockedKnownChannels
                            (\<lambda>known. known - set (plugin_Channels ext packet)) s1
                     else Some s1)
               else if plugin_McBrand ext packet then
                 Some (snd (onServerConn a
                   (WritePacket (PluginMessagePacket
                      (plugin_RewriteMinecraftBrand ext packet (protocol (conn s))))) s))
               else
                 let serverConnPhase = serverPhase (servers s a)
                 in if isInTransitionBackendPhase serverConnPhase then
                      (case connectionInFlight s of
                         None \<Rightarrow> Some s
                       | Some inFlight \<Rightarrow> Some (snd (phase_handle inFlight packet s)))
                    else
                      let playerPhase = phase s;
                          (handled, s1) = phase_handle a packet s
                      in if handled then Some s1
                         else if clientConsideredComplete playerPhase \<and>
                                 backendConsideredComplete serverConnPhase then
                           (case channelRegistrar s1 (Channel packet) of
                              None \<Rightarrow>
                                Some (snd (onServerConn a
                                  (WritePacket (PluginMessagePacket packet)) s1))
                            | Some ident \<Rightarrow>
                                let clone = Data packet;
                                    s2 = event_Fire (PluginMessageEvent a ident clone) s1
                                in if allowed
                                   then Some (snd (onServerConn a
                                          (WritePacket (PluginMessagePacket
                                             \<lparr>Channel = Channel packet, Data = clone\<rparr>)) s2))
                                   else Some s2)
                         else Some (s1\<lparr>loginPluginMessages := loginPluginMessages s1 @ [packet]\<rparr>)))"

text \<open>
  \<open>handleBackendJoinGame\<close>, in the order of the source. \<open>spawnPackets\<close> is
  the \<open>if c.spawned.CAS(false, true) \<dots> else \<dots>\<close> statement: the flag is set
  in either case, the first join buffers the \<open>JoinGame\<close> and calls
  \<open>onFirstJoin\<close>, a later one buffers the \<open>JoinGame\<close> and the respawns. The
  \<open>Respawn\<close> literal leaves \<open>Dimension\<close> at Go's zero value.
\<close>

definition orReturn ::
  "(session \<Rightarrow> error option \<times> session) \<Rightarrow> (session \<Rightarrow> error option \<times> session) \<Rightarrow>
   session \<Rightarrow> error option \<times> session" where
  "orReturn f g s = (case f s of (Some e, s1) \<Rightarrow> (Some e, s1) | (None, s1) \<Rightarrow> g s1)"

definition newRespawn :: "JoinGame \<Rightarrow> Respawn" where
  "newRespawn joinGame =
     \<lparr>rDimension = 0,
      rPartialHashedSeed = PartialHashedSeed joinGame,
      rDifficulty = Difficulty joinGame,
      rGamemode = Gamemode joinGame,
      rLevelType = (case LevelType joinGame of Some l \<Rightarrow> l | None \<Rightarrow> []),
      rShouldKeepPlayerData = False,
      rDimensionInfo = DimensionInfo joinGame,
      rPreviousGamemode = PreviousGamemode joinGame,
      rCurrentDimensionData = CurrentDimensionData joinGame\<rparr>"

definition spawnPackets :: "Protocol \<Rightarrow> JoinGame \<Rightarrow> session \<Rightarrow> error option \<times> session" where
  "spawnPackets playerVersion joinGame s =
     (if \<not> spawned s then
           orReturn (onPlayerConn (BufferPacket (JoinGamePacket joinGame)))
             (\<lambda>s1. (None, record_call OnFirstJoin s1))
             (s\<lparr>spawned := True\<rparr>)
         else
           let respawn = newRespawn joinGame
           in orReturn (onPlayerConn (BufferPacket (JoinGamePacket joinGame)))
                (orReturn
                   (if Lower playerVersion Minecraft_1_16
                    then onPlayerConn (BufferPacket (RespawnPacket
                           (if Dimension joinGame = 0 then respawn\<lparr>rDimension := - 1\<rparr>
                            else respawn)))
                    else (\<lambda>s1. (None, s1)))
                   (onPlayerConn (BufferPacket (RespawnPacket
                      (respawn\<lparr>rDimension := Dimension joinGame\<rparr>)))))
                (s\<lparr>spawned := True\<rparr>))"

text \<open>The player's known channels go to the backend, built for its protocol.\<close>

definition sendKnownChannels :: "externals \<Rightarrow> addr \<Rightarrow> minecraftConn \<Rightarrow> session \<Rightarrow> error option \<times> session" where
  "sendKnownChannels ext destination serverMc s =
     (let serverVersion = protocol serverMc;
          playerKnownChannels = UnsortedList ext (knownChannels s)
      in if playerKnownChannels \<noteq> []
         then onServerConn destination
                (BufferPacket (PluginMessagePacket
                   (plugin_ConstructChannelsPacket ext serverVersion playerKnownChannels))) s
         else (None, s))"

text \<open>
  The loop over \<open>loginPluginMessages\<close>: a message is popped, then buffered; an
  error ends the loop with the popped message gone from the queue.
\<close>

fun drainLoginPluginMessages ::
  "addr \<Rightarrow> plugin_Message list \<Rightarrow> session \<Rightarrow> error option \<times> session" where
  "drainLoginPluginMessages destination [] s = (None, s)"
| "drainLoginPluginMessages destination (pm # queue) s =
     (case onServerConn destination (BufferPacket (PluginMessagePacket pm))
             (s\<lparr>loginPluginMessages := queue\<rparr>) of
        (Some e, s1) \<Rightarrow> (Some e, s1)
      | (None, s1) \<Rightarrow> drainLoginPluginMessages destination queue s1)"

definition resetTitle :: "externals \<Rightarrow> Protocol \<Rightarrow> session \<Rightarrow> error option \<times> session" where
  "resetTitle ext playerVersion s =
     (if GreaterEqual playerVersion Minecraft_1_8
      then onPlayerConn (BufferPacket (TitlePacket (packet_NewResetTitle ext playerVersion))) s
      else (None, s))"

definition handleBackendJoinGame ::
  "externals \<Rightarrow> JoinGame \<Rightarrow> addr \<Rightarrow> session \<Rightarrow> bool \<times> session" where
  "handleBackendJoinGame ext joinGame destination s =
     (case ensureConnected destination s of
        None \<Rightarrow> (False, s)
      | Some serverMc \<Rightarrow>
          let playerVersion = protocol (conn s) in
          (case spawnPackets playerVersion joinGame s of
             (Some e, s1) \<Rightarrow> (False, s1)
           | (None, s1) \<Rightarrow>
          (case sendKnownChannels ext destination serverMc s1 of
             (Some e, s2) \<Rightarrow> (False, s2)
           | (None, s2) \<Rightarrow>
          (case drainLoginPluginMessages destination (loginPluginMessages s2) s2 of
             (Some e, s3) \<Rightarrow> (False, s3)
           | (None, s3) \<Rightarrow>
          (case resetTitle ext playerVersion s3 of
             (Some e, s4) \<Rightarrow> (False, s4)
           | (None, s4) \<Rightarrow>
          (case onPlayerConn flush s4 of
             (Some e, s5) \<Rightarrow> (False, s5)
           | (None, s5) \<Rightarrow>
          (case onServerConn destination flush s5 of
             (Some e, s6) \<Rightarrow> (False, s6)
           | (None, s6) \<Rightarrow> (True, completeJoin destination s6))))))))"

text \<open>
  \<open>handleChat\<close>. \<open>allowed\<close> is the event's \<open>Allowed()\<close> once the subscribers
  of the fired event have run.
\<close>

definition forwardChat :: "addr \<Rightarrow> Chat \<Rightarrow> session \<Rightarrow> session" where
  "forwardChat a p s =
     snd (onServerConn a
       (WritePacket (ChatPacket \<lparr>Message = Message p, Type = ChatMessage, Sender = None\<rparr>)) s)"

definition handleChat :: "externals \<Rightarrow> bool \<Rightarrow> Chat \<Rightarrow> session \<Rightarrow> session" where
  "handleChat ext allowed p s =
     (case connectedServer s of
        None \<Rightarrow> s
      | Some a \<Rightarrow>
          (case connection (servers s a) of
             None \<Rightarrow> s
           | Some serverMc \<Rightarrow>
               if HasPrefix (Message p) ''/'' then
                 let commandline = trimSpaces ext (TrimPrefix (Message p) ''/'');
                     s1 = event_Fire (CommandExecuteEvent commandline) s
                 in if \<not> (allowed \<and> Active s1) then s1
                    else
                      let (cmd, args) = extract' ext commandline
                      in if cmd \<in> commands s1 then record_call (Invoke cmd args) s1
                         else forwardChat a p s1
               else
                 let s1 = event_Fire (PlayerChatEvent (Message p)) s
                 in if \<not> (allowed \<and> Active s1) then s1
                    else forwardChat a p s1))"

subsection \<open>The backend Play session handler\<close>

text \<open>
  Modelled from the spec: the backend Play session handler, which receives the
  backend's plugin messages and is the caller of \<open>canForwardPluginMessage\<close>, is
  missing. Spec 4.5: "Any other channel is forwarded only if present in the player's
  known-channel set"; spec 8: a message outside the whitelist "is not delivered to
  p", "packet dropped, not delivered to client; no event fired". The whitelist is
  asked for the player's protocol. What the handler does with a permitted message
  (the classification of 4.5, towards the client) is the parameter \<open>relay\<close>.
\<close>

definition backend_handlePluginMessage ::
  "externals \<Rightarrow> (plugin_Message \<Rightarrow> session \<Rightarrow> session) \<Rightarrow> plugin_Message \<Rightarrow> session \<Rightarrow> session" where
  "backend_handlePluginMessage ext relay message s =
     (if canForwardPluginMessage ext (protocol (conn s)) message s
      then relay message s
      else s)"

section \<open>Auxiliary notions for the proofs\<close>

text \<open>
  How a connection may change under the methods above: the handler stays, the two
  closed flags agree, nothing reopens, \<open>knownDisconnect\<close> is never reset, and
  \<open>disconnected()\<close> is called when, and only when, the once fires.
\<close>

definition evolves :: "minecraftConn \<Rightarrow> minecraftConn \<Rightarrow> bool" where
  "evolves c c' =
     (sessionHandler c' = sessionHandler c \<and> closed c' = closeOnce c' \<and>
      (closeOnce c' \<or> \<not> closeOnce c) \<and>
      (knownDisconnect c' \<or> \<not> knownDisconnect c) \<and>
      protocol c' = protocol c \<and> state c' = state c \<and>
      disconnectedCalls c' =
        disconnectedCalls c + (if closeOnce c' \<and> \<not> closeOnce c \<and> sessionHandler c then 1 else 0))"

text \<open>An operation reports an error exactly when it leaves the connection closed.\<close>

definition reports :: "minecraftConn \<Rightarrow> error option \<times> minecraftConn \<Rightarrow> bool" where
  "reports c r = (evolves c (snd r) \<and> (fst r = None) = (\<not> closed (snd r)))"

text \<open>Sample values for the witnesses.\<close>

definition conn0 :: minecraftConn where
  "conn0 = \<lparr>closeOnce = False, closed = False, knownDisconnect = False, cancelled = False,
     sessionHandler = True, disconnectedCalls = 0, writeBuf = [], wire = [],
     protocol = 578, state = Play, net = []\<rparr>"

text \<open>
  Stand-ins for the missing functions, used in the examples only: channel lists are
  NUL-separated, the legacy names are \<open>REGISTER\<close>, \<open>UNREGISTER\<close> and
  \<open>MC|Brand\<close>, the Forge handshake channel is \<open>FML|HS\<close>.
\<close>

fun splitNul :: "string \<Rightarrow> string \<Rightarrow> string list" where
  "splitNul [] acc = (if acc = [] then [] else [acc])"
| "splitNul (b # bs) acc =
     (if b = CHR 0x00 then acc # splitNul bs [] else splitNul bs (acc @ [b]))"

definition ext0 :: externals where
  "ext0 =
     \<lparr>plugin_Register = (\<lambda>m. Channel m = ''minecraft:register'' \<or> Channel m = ''REGISTER''),
      plugin_Unregister = (\<lambda>m. Channel m = ''minecraft:unregister'' \<or> Channel m = ''UNREGISTER''),
      plugin_LegacyRegister = (\<lambda>m. Channel m = ''REGISTER''),
      plugin_LegacyUnregister = (\<lambda>m. Channel m = ''UNREGISTER''),
      plugin_McBrand = (\<lambda>m. Channel m = ''minecraft:brand'' \<or> Channel m = ''MC|Brand''),
      plugin_Channels = (\<lambda>m. splitNul (Data m) []),
      plugin_RewriteMinecraftBrand = (\<lambda>m v. m),
      plugin_ConstructChannelsPacket =
        (\<lambda>v chans. \<lparr>Channel = (if Minecraft_1_13 \<le> v then ''minecraft:register'' else ''REGISTER''),
                     Data = concat (map (\<lambda>c. c @ [CHR 0x00]) chans)\<rparr>),
      forge_LegacyHandshakeChannel = ''FML|HS'',
      packet_NewResetTitle = (\<lambda>v. \<lparr>Action = 5, Component = None\<rparr>),
      UnsortedList = sorted_list_of_set,
      trimSpaces = (\<lambda>x. x),
      extract' = (\<lambda>x. (takeWhile (\<lambda>c. c \<noteq> CHR '' '') x, []))\<rparr>"

definition phase0 :: clientConnectionPhase where
  "phase0 = \<lparr>handleAnswer = (\<lambda>a m. False), clientConsideredComplete = True\<rparr>"

definition backendPhase0 :: backendConnectionPhase where
  "backendPhase0 = \<lparr>isInTransitionBackendPhase = False, backendConsideredComplete = True\<rparr>"

definition server0 :: serverConnection where
  "server0 = \<lparr>connection = Some conn0, serverPhase = backendPhase0,
     lastPingId = 7, lastPingSent = 1600000000000\<rparr>"

definition noServer :: serverConnection where
  "noServer = \<lparr>connection = None, serverPhase = backendPhase0, lastPingId = 0, lastPingSent = 0\<rparr>"

text \<open>
  A player on protocol 1.15.2 whose current backend is the server connection at
  address 10; address 20 holds a second connected backend, every other address an
  unconnected one.
\<close>

definition session0 :: session where
  "session0 =
     \<lparr>conn = conn0, ping = - 1, disconnectDueToDuplicateConnection = False,
      pluginChannelsMu = 0, pluginChannels = {},
      connectedServer' = Some 10, connInFlight = None, connPhase = phase0,
      spawned = True, loginPluginMessages = [],
      servers = (\<lambda>a. if a = 10 \<or> a = 20 then server0 else noServer),
      registered = True, commands = {''glist''}, channelRegistrar = (\<lambda>c. None),
      calls = []\<rparr>"

definition longMessage :: string where
  "longMessage = CHR ''h'' # replicate 256 (CHR ''a'')"

definition registerFoo :: plugin_Message where
  "registerFoo = \<lparr>Channel = ''minecraft:register'', Data = ''a:b''\<rparr>"

definition backendWire :: "addr \<Rightarrow> session \<Rightarrow> Packet list" where
  "backendWire a s = (case connection (servers s a) of None \<Rightarrow> [] | Some c \<Rightarrow> wire c)"

text \<open>The same player when the next operation of the backend's transport fails.\<close>

definition brokenBackend :: "nat \<Rightarrow> session" where
  "brokenBackend readers =
     session0\<lparr>pluginChannelsMu := readers,
       servers := (\<lambda>a. if a = 10 then server0\<lparr>connection := Some (conn0\<lparr>net := [False]\<rparr>)\<rparr>
                        else noServer)\<rparr>"

text \<open>
  Notions for the server switch. \<open>clientOut\<close> is everything handed to the player's
  connection so far, flushed or not. \<open>completeJoins\<close> lists the
  \<open>completeJoin()\<close> calls. \<open>sessionOK\<close>: the destination has a backend
  connection, and on it and on the player's connection the once and the closed flag
  agree. \<open>step\<close> is what every stage of the ceremony guarantees: it keeps
  \<open>sessionOK\<close>, the current server, the \<open>completeJoin\<close> calls and a set
  \<open>spawned\<close> flag, and it reports an error only with one of the two connections
  closed.
\<close>

definition clientOut :: "session \<Rightarrow> Packet list" where
  "clientOut s = wire (conn s) @ writeBuf (conn s)"

definition completeJoins :: "call list \<Rightarrow> addr list" where
  "completeJoins cs = List.map_filter (\<lambda>x. case x of CompleteJoin a \<Rightarrow> Some a | _ \<Rightarrow> None) cs"

definition connOK :: "minecraftConn \<Rightarrow> bool" where
  "connOK c = (closed c = closeOnce c)"

definition sessionOK :: "addr \<Rightarrow> session \<Rightarrow> bool" where
  "sessionOK d s =
     (connOK (conn s) \<and> (case connection (servers s d) of None \<Rightarrow> False | Some c \<Rightarrow> connOK c))"

definition backendClosed :: "addr \<Rightarrow> session \<Rightarrow> bool" where
  "backendClosed d s = (case connection (servers s d) of None \<Rightarrow> True | Some c \<Rightarrow> closed c)"

definition step :: "addr \<Rightarrow> session \<Rightarrow> error option \<times> session \<Rightarrow> bool" where
  "step d s r =
     (sessionOK d (snd r) \<and>
      connectedServer' (snd r) = connectedServer' s \<and>
      completeJoins (calls (snd r)) = completeJoins (calls s) \<and>
      protocol (conn (snd r)) = protocol (conn s) \<and>
      (spawned (snd r) \<or> \<not> spawned s) \<and>
      (fst r = None \<or> closed (conn (snd r)) \<or> backendClosed d (snd r)))"

definition stepper :: "addr \<Rightarrow> (session \<Rightarrow> error option \<times> session) \<Rightarrow> bool" where
  "stepper d f = (\<forall>s. sessionOK d s \<longrightarrow> step d s (f s))"

text \<open>
  The stages of \<open>handleBackendJoinGame\<close> after \<open>ensureConnected\<close>, as one
  sequence that stops at the first error; \<open>adds\<close> says which packets a successful
  stage handed to the player's connection and which calls it made.
\<close>

definition ceremony ::
  "externals \<Rightarrow> JoinGame \<Rightarrow> addr \<Rightarrow> minecraftConn \<Rightarrow> Protocol \<Rightarrow> session \<Rightarrow> error option \<times> session" where
  "ceremony ext j d mc v =
     orReturn (spawnPackets v j)
       (orReturn (sendKnownChannels ext d mc)
          (orReturn (\<lambda>s. drainLoginPluginMessages d (loginPluginMessages s) s)
             (orReturn (resetTitle ext v)
                (orReturn (onPlayerConn flush) (onServerConn d flush)))))"

definition adds :: "Packet list \<Rightarrow> call list \<Rightarrow> session \<Rightarrow> session \<Rightarrow> bool" where
  "adds ps cs s s' = (clientOut s' = clientOut s @ ps \<and> calls s' = calls s @ cs)"

definition spawnList :: "Protocol \<Rightarrow> JoinGame \<Rightarrow> bool \<Rightarrow> Packet list" where
  "spawnList v j sp =
     (if \<not> sp then [JoinGamePacket j]
      else JoinGamePacket j #
           (if Lower v Minecraft_1_16
            then [RespawnPacket (if Dimension j = 0 then (newRespawn j)\<lparr>rDimension := - 1\<rparr>
                                 else newRespawn j)]
            else []) @
           [RespawnPacket ((newRespawn j)\<lparr>rDimension := Dimension j\<rparr>)])"

definition titleList :: "externals \<Rightarrow> Protocol \<Rightarrow> Packet list" where
  "titleList ext v =
     (if GreaterEqual v Minecraft_1_8 then [TitlePacket (packet_NewResetTitle ext v)] else [])"

text \<open>
  The \<open>Respawn\<close> that mirrors a \<open>JoinGame\<close> at a given dimension, in the spec's
  words: difficulty, gamemode, partial hashed seed, level type (empty if absent),
  previous gamemode and current dimension data of the \<open>JoinGame\<close> (and its
  dimension info), with \<open>ShouldKeepPlayerData = false\<close>.
\<close>

definition mirrorRespawn :: "JoinGame \<Rightarrow> int \<Rightarrow> Respawn" where
  "mirrorRespawn j dim =
     \<lparr>rDimension = dim,
      rPartialHashedSeed = PartialHashedSeed j,
      rDifficulty = Difficulty j,
      rGamemode = Gamemode j,
      rLevelType = (case LevelType j of None \<Rightarrow> [] | Some l \<Rightarrow> l),
      rShouldKeepPlayerData = False,
      rDimensionInfo = DimensionInfo j,
      rPreviousGamemode = PreviousGamemode j,
      rCurrentDimensionData = CurrentDimensionData j\<rparr>"

definition joinGame0 :: JoinGame where
  "joinGame0 = \<lparr>Dimension = 0, PartialHashedSeed = 57005, Difficulty = 2, Gamemode = 0,
     LevelType = Some ''default'', DimensionInfo = None, PreviousGamemode = 0,
     CurrentDimensionData = None\<rparr>"

text \<open>A stage that never clears the \<open>spawned\<close> flag.\<close>

definition keeps :: "(session \<Rightarrow> error option \<times> session) \<Rightarrow> bool" where
  "keeps f = (\<forall>s. spawned s \<longrightarrow> spawned (snd (f s)))"

text \<open>The sample player on protocol \<open>v\<close>, before or after its first join.\<close>

definition player0 :: "Protocol \<Rightarrow> bool \<Rightarrow> session" where
  "player0 v sp = session0\<lparr>spawned := sp, conn := conn0\<lparr>protocol := v\<rparr>\<rparr>"

text \<open>The sample player when the next operation of its own transport fails.\<close>

definition brokenPlayer :: session where
  "brokenPlayer = session0\<lparr>conn := conn0\<lparr>net := [False]\<rparr>\<rparr>"

text \<open>A relay for the examples: the permitted message is written to the player as it is.\<close>

definition relayVerbatim :: "plugin_Message \<Rightarrow> session \<Rightarrow> session" where
  "relayVerbatim m s = snd (onPlayerConn (WritePacket (PluginMessagePacket m)) s)"



lemma evolves_refl: "closed c = closeOnce c \<Longrightarrow> evolves c c"
  by (simp add: evolves_def)

lemma evolves_trans: "evolves a b \<Longrightarrow> evolves b c \<Longrightarrow> evolves a c"
  by (auto simp: evolves_def split: if_splits)

lemma transport_fields [simp]:
  "closeOnce (snd (transport c)) = closeOnce c"
  "closed (snd (transport c)) = closed c"
  "sessionHandler (snd (transport c)) = sessionHandler c"
  "disconnectedCalls (snd (transport c)) = disconnectedCalls c"
  "knownDisconnect (snd (transport c)) = knownDisconnect c"
  "cancelled (snd (transport c)) = cancelled c"
  "protocol (snd (transport c)) = protocol c"
  "state (snd (transport c)) = state c"
  "writeBuf (snd (transport c)) = writeBuf c"
  "wire (snd (transport c)) = wire c"
  by (simp_all add: transport_def split: list.splits)

lemma transport_healthy [simp]: "net c = [] \<Longrightarrow> transport c = (None, c)"
  by (simp add: transport_def)

lemma closeKnown_closed [simp]:
  "closeOnce c \<Longrightarrow> closeKnown m c = (Some ErrClosedConn, c)"
  by (simp add: closeKnown_def)

lemma closeKnown_open:
  "\<not> closeOnce c \<Longrightarrow>
     closeOnce (snd (closeKnown m c)) \<and> closed (snd (closeKnown m c)) \<and>
     sessionHandler (snd (closeKnown m c)) = sessionHandler c \<and>
     knownDisconnect (snd (closeKnown m c)) = (m \<or> knownDisconnect c) \<and>
     protocol (snd (closeKnown m c)) = protocol c \<and>
     state (snd (closeKnown m c)) = state c \<and>
     writeBuf (snd (closeKnown m c)) = writeBuf c \<and>
     wire (snd (closeKnown m c)) = wire c \<and>
     disconnectedCalls (snd (closeKnown m c)) =
       disconnectedCalls c + (if sessionHandler c then 1 else 0)"
  by (simp add: closeKnown_def net_Close_def Let_def case_prod_beta)

lemma closeKnown_evolves:
  "closed c = closeOnce c \<Longrightarrow> evolves c (snd (closeKnown m c))"
  by (cases "closeOnce c") (simp_all add: evolves_def closeKnown_open)

lemma closeOnErr_evolves:
  "closed c = closeOnce c \<Longrightarrow> evolves c (closeOnErr err c)"
  by (cases err) (simp_all add: closeOnErr_def close_def closeKnown_evolves evolves_refl)

lemma closeOnErr_closes:
  "closeOnce (closeOnErr (Some e) c)"
  by (cases "closeOnce c") (simp_all add: closeOnErr_def close_def closeKnown_open)

lemma encoder_WritePacket_evolves:
  "closed c = closeOnce c \<Longrightarrow> evolves c (snd (encoder_WritePacket p c))"
  by (simp add: encoder_WritePacket_def evolves_def case_prod_beta split: option.splits)

lemma encoder_Sync_Flush_evolves:
  "closed c = closeOnce c \<Longrightarrow> evolves c (snd (encoder_Sync_Flush c))"
  by (simp add: encoder_Sync_Flush_def evolves_def case_prod_beta split: option.splits)

lemma SetWriteDeadline_evolves:
  "closed c = closeOnce c \<Longrightarrow> evolves c (snd (SetWriteDeadline c))"
  by (simp add: SetWriteDeadline_def evolves_def)

lemma evolves_wf: "evolves c c' \<Longrightarrow> closed c' = closeOnce c'"
  by (simp add: evolves_def)

lemma BufferPacket_reports:
  "closed c = closeOnce c \<Longrightarrow> reports c (BufferPacket p c)"
  by (simp add: reports_def evolves_def BufferPacket_def Closed_def encoder_WritePacket_def
      transport_def closeOnErr_def close_def closeKnown_def net_Close_def Let_def
      split: list.split)

lemma flush_reports:
  "closed c = closeOnce c \<Longrightarrow> reports c (flush c)"
  by (simp add: reports_def evolves_def flush_def SetWriteDeadline_def encoder_Sync_Flush_def
      transport_def closeOnErr_def close_def closeKnown_def net_Close_def Let_def
      split: list.split)

lemma reports_fst: "reports c r \<Longrightarrow> (fst r = None) = (\<not> closed (snd r))"
  by (simp add: reports_def)

lemma reports_wf: "reports c r \<Longrightarrow> closed (snd r) = closeOnce (snd r)"
  by (simp add: reports_def evolves_def)

lemma WritePacket_reports:
  assumes "closed c = closeOnce c"
  shows "reports c (WritePacket p c)"
proof (cases "closed c")
  case True
  with assms show ?thesis
    by (simp add: WritePacket_def Closed_def reports_def evolves_refl)
next
  case False
  have b: "reports c (BufferPacket p c)" using assms by (rule BufferPacket_reports)
  show ?thesis
  proof (cases "fst (BufferPacket p c)")
    case (Some e)
    then have cl: "closed (snd (BufferPacket p c))" using b by (simp add: reports_def)
    then have "closeOnce (snd (BufferPacket p c))" using b by (simp add: reports_def evolves_def)
    then have "WritePacket p c = (Some e, snd (BufferPacket p c))"
      using False Some
      by (simp add: WritePacket_def Closed_def case_prod_beta closeOnErr_def close_def
          split: option.splits)
    then show ?thesis using b Some by (simp add: reports_def)
  next
    case None
    let ?c1 = "snd (BufferPacket p c)"
    have wf1: "closed ?c1 = closeOnce ?c1" using b by (rule reports_wf)
    have f: "reports ?c1 (flush ?c1)" using wf1 by (rule flush_reports)
    have eq: "WritePacket p c = (fst (flush ?c1), closeOnErr (fst (flush ?c1)) (snd (flush ?c1)))"
      using False None
      by (simp add: WritePacket_def Closed_def case_prod_beta split: option.splits)
    have same: "closeOnErr (fst (flush ?c1)) (snd (flush ?c1)) = snd (flush ?c1)"
    proof (cases "fst (flush ?c1)")
      case None then show ?thesis by (simp add: closeOnErr_def)
    next
      case (Some e)
      then have "closed (snd (flush ?c1))" using f by (simp add: reports_def)
      then have "closeOnce (snd (flush ?c1))" using f by (simp add: reports_def evolves_def)
      then show ?thesis using Some by (simp add: closeOnErr_def close_def)
    qed
    have "evolves c (snd (flush ?c1))"
      using b f by (auto simp: reports_def intro: evolves_trans)
    then show ?thesis using eq same f by (simp add: reports_def)
  qed
qed

lemma BufferPacket_ok:
  "fst (BufferPacket p c) = None \<Longrightarrow>
     writeBuf (snd (BufferPacket p c)) = writeBuf c @ [p] \<and>
     wire (snd (BufferPacket p c)) = wire c \<and> \<not> closed c"
  by (simp add: BufferPacket_def Closed_def encoder_WritePacket_def transport_def
      closeOnErr_def Let_def split: list.splits if_splits)

lemma flush_ok:
  "fst (flush c) = None \<Longrightarrow>
     wire (snd (flush c)) = wire c @ writeBuf c \<and> writeBuf (snd (flush c)) = [] \<and> \<not> closed c"
  by (simp add: flush_def SetWriteDeadline_def encoder_Sync_Flush_def transport_def
      closeOnErr_def Let_def split: list.splits if_splits)

lemma WritePacket_ok:
  "fst (WritePacket p c) = None \<Longrightarrow>
     wire (snd (WritePacket p c)) = wire c @ writeBuf c @ [p] \<and>
     writeBuf (snd (WritePacket p c)) = [] \<and> \<not> closed c"
  by (simp add: WritePacket_def BufferPacket_def Closed_def flush_def SetWriteDeadline_def
      encoder_Sync_Flush_def encoder_WritePacket_def transport_def
      closeOnErr_def Let_def split: list.splits if_splits)

lemma WritePacket_wire_mono:
  "closed c = closeOnce c \<Longrightarrow> fst (WritePacket p c) \<noteq> None \<Longrightarrow> wire (snd (WritePacket p c)) = wire c"
  by (simp add: WritePacket_def BufferPacket_def Closed_def flush_def SetWriteDeadline_def
      encoder_Sync_Flush_def encoder_WritePacket_def transport_def close_def closeKnown_def net_Close_def
      closeOnErr_def Let_def split: list.splits if_splits)

lemma closeKnown_closes: "closeOnce (snd (closeKnown m c))"
  by (cases "closeOnce c") (simp_all add: closeKnown_open)

lemma closeWith_evolves:
  assumes "closed c = closeOnce c" "\<not> closeOnce c"
  shows "evolves (c\<lparr>knownDisconnect := True\<rparr>) (snd (closeWith p c)) \<and>
         closeOnce (snd (closeWith p c))"
proof -
  let ?c1 = "c\<lparr>knownDisconnect := True\<rparr>"
  let ?w = "snd (WritePacket p ?c1)"
  have wf1: "closed ?c1 = closeOnce ?c1" using assms by simp
  have w: "evolves ?c1 ?w" using WritePacket_reports [OF wf1] by (simp add: reports_def)
  have k: "evolves ?w (snd (close ?w))"
    unfolding close_def using w by (intro closeKnown_evolves) (simp add: evolves_def)
  have eq: "closeWith p c = close ?w"
    using assms by (simp add: closeWith_def Closed_def case_prod_beta)
  show ?thesis
    using evolves_trans [OF w k] eq by (simp add: close_def closeKnown_closes)
qed

lemma runCall_closed:
  "closeOnce c \<Longrightarrow> closed c \<Longrightarrow> runCall y c = (Some ErrClosedConn, c)"
  by (cases y) (simp_all add: close_def closeWith_def Closed_def)

lemma runCalls_closed:
  "closeOnce c \<Longrightarrow> closed c \<Longrightarrow> runCalls ys c = c"
  by (induction ys) (simp_all add: runCall_closed)

lemma runCall_first:
  assumes "\<not> closeOnce c" "\<not> closed c"
  shows "closeOnce (snd (runCall x c)) \<and> closed (snd (runCall x c)) \<and>
         disconnectedCalls (snd (runCall x c)) =
           disconnectedCalls c + (if sessionHandler c then 1 else 0)"
proof (cases x)
  case CallClose
  then show ?thesis using assms by (simp add: close_def closeKnown_open)
next
  case (CallCloseKnown m)
  then show ?thesis using assms by (simp add: closeKnown_open)
next
  case (CallCloseWith p)
  have "closed c = closeOnce c" using assms by simp
  from closeWith_evolves [OF this assms(1), of p] CallCloseWith assms
  show ?thesis by (simp add: evolves_def)
qed

section \<open>Closing a connection\<close>

text \<open>
  Claim C9. On an open connection with a session handler, any non-empty sequence of
  \<open>close\<close>, \<open>closeKnown\<close> and \<open>closeWith\<close> calls runs \<open>disconnected()\<close>
  exactly once; the state after the first call is final, and every further call
  returns \<open>ErrClosedConn\<close> and changes nothing. \<open>closeWith\<close> is \<open>close\<close> after
  the packet was written with \<open>knownDisconnect\<close> already stored, and leaves the
  flag set and the connection closed.
\<close>

theorem close_single_shot:
  assumes "\<not> closeOnce c" and "\<not> closed c" and "sessionHandler c"
  shows "disconnectedCalls (runCalls (x # xs) c) = Suc (disconnectedCalls c) \<and>
         runCalls (x # xs) c = snd (runCall x c) \<and>
         (\<forall>y. runCall y (runCalls (x # xs) c) = (Some ErrClosedConn, runCalls (x # xs) c)) \<and>
         closeWith p c = close (snd (WritePacket p (c\<lparr>knownDisconnect := True\<rparr>))) \<and>
         knownDisconnect (snd (closeWith p c)) \<and> closed (snd (closeWith p c))"
proof -
  let ?c1 = "snd (runCall x c)"
  have first: "closeOnce ?c1 \<and> closed ?c1 \<and> disconnectedCalls ?c1 = Suc (disconnectedCalls c)"
    using runCall_first [OF assms(1,2), of x] assms(3) by simp
  then have rest: "runCalls (x # xs) c = ?c1"
    by (simp add: runCalls_closed)
  have later: "\<forall>y. runCall y ?c1 = (Some ErrClosedConn, ?c1)"
    using first by (simp add: runCall_closed)
  have wf: "closed c = closeOnce c" using assms by simp
  have cw: "closeWith p c = close (snd (WritePacket p (c\<lparr>knownDisconnect := True\<rparr>)))"
    using assms by (simp add: closeWith_def Closed_def case_prod_beta)
  have kd: "knownDisconnect (snd (closeWith p c)) \<and> closed (snd (closeWith p c))"
    using closeWith_evolves [OF wf assms(1), of p] by (simp add: evolves_def)
  show ?thesis using first rest later cw kd by simp
qed

theorem close_single_shot_witness:
  "\<not> closeOnce conn0 \<and> \<not> closed conn0 \<and> sessionHandler conn0 \<and>
   disconnectedCalls (runCalls [CallCloseWith (OtherPacket 0), CallClose, CallCloseKnown False] conn0)
     = Suc (disconnectedCalls conn0) \<and>
   runCall CallClose (runCalls [CallCloseWith (OtherPacket 0), CallClose, CallCloseKnown False] conn0)
     = (Some ErrClosedConn, runCalls [CallCloseWith (OtherPacket 0), CallClose, CallCloseKnown False] conn0) \<and>
   knownDisconnect (snd (closeWith (OtherPacket 0) conn0)) \<and>
   wire (snd (closeWith (OtherPacket 0) conn0)) = [OtherPacket 0]"
proof -
  have h: "\<not> closeOnce conn0" "\<not> closed conn0" "sessionHandler conn0"
    by (simp_all add: conn0_def)
  have w: "wire (snd (closeWith (OtherPacket 0) conn0)) = [OtherPacket 0]"
    by (simp add: conn0_def closeWith_def WritePacket_def BufferPacket_def Closed_def flush_def
      SetWriteDeadline_def encoder_Sync_Flush_def encoder_WritePacket_def transport_def close_def
      closeKnown_def net_Close_def closeOnErr_def Let_def)
  note t = close_single_shot [OF h,
      of "CallCloseWith (OtherPacket 0)" "[CallClose, CallCloseKnown False]" "OtherPacket 0"]
  show ?thesis using h w t by blast
qed

section \<open>Player teardown\<close>

lemma teardown_calls:
  "calls (teardown s) =
     calls s
     @ (case connInFlight s of None \<Rightarrow> [] | Some a \<Rightarrow> [Disconnect a])
     @ (case connectedServer' s of None \<Rightarrow> [] | Some a \<Rightarrow> [Disconnect a])
     @ [UnregisterConnection,
        Fire (DisconnectEvent
          (if registered s
           then (if disconnectDueToDuplicateConnection s
                 then ConflictingLoginStatus else SuccessfulLoginStatus)
           else (if knownDisconnect (conn s)
                 then CanceledByProxyLoginStatus else CanceledByUserLoginStatus)))]"
  by (simp add: teardown_def unregisterConnection_def event_Fire_def record_call_def
      serverConnection_disconnect_def Let_def split: option.split)

text \<open>
  Claim C8. Teardown calls \<open>disconnect()\<close> on the in-flight backend and then on the
  current backend (each when the player has one), unregisters the player and then
  fires one \<open>DisconnectEvent\<close>. \<open>registered s\<close> is the answer of
  \<open>unregisterConnection\<close>; with it the status is \<open>ConflictingLogin\<close> or
  \<open>SuccessfulLogin\<close> by the duplicate flag, without it \<open>CanceledByProxy\<close> or
  \<open>CanceledByUser\<close> by \<open>knownDisconnect\<close>.
\<close>

theorem teardown_disconnects_and_reports:
  "calls (teardown s) =
     calls s
     @ (case connInFlight s of None \<Rightarrow> [] | Some a \<Rightarrow> [Disconnect a])
     @ (case connectedServer' s of None \<Rightarrow> [] | Some a \<Rightarrow> [Disconnect a])
     @ [UnregisterConnection,
        Fire (DisconnectEvent
          (if registered s
           then (if disconnectDueToDuplicateConnection s
                 then ConflictingLoginStatus else SuccessfulLoginStatus)
           else (if knownDisconnect (conn s)
                 then CanceledByProxyLoginStatus else CanceledByUserLoginStatus)))]"
  by (rule teardown_calls)

lemma teardown_frame [simp]:
  "conn (teardown s) = conn s"
  "connectedServer' (teardown s) = connectedServer' s"
  "connInFlight (teardown s) = connInFlight s"
  "servers (teardown s) = servers s"
  "spawned (teardown s) = spawned s"
  "loginPluginMessages (teardown s) = loginPluginMessages s"
  "pluginChannels (teardown s) = pluginChannels s"
  "ping (teardown s) = ping s"
  by (simp_all add: teardown_def unregisterConnection_def event_Fire_def record_call_def
      serverConnection_disconnect_def Let_def split: option.split)

section \<open>Plugin messages from the backend\<close>

lemma canForwardPluginMessage_unfold:
  "canForwardPluginMessage ext v m s \<longleftrightarrow>
     (v \<le> Minecraft_1_12_2 \<and>
        (HasPrefix (Channel m) ''MC|'' \<or>
         HasPrefix (Channel m) (forge_LegacyHandshakeChannel ext) \<or>
         plugin_LegacyRegister ext m \<or> plugin_LegacyUnregister ext m)) \<or>
     (Minecraft_1_12_2 < v \<and> HasPrefix (Channel m) ''minecraft:'') \<or>
     Channel m \<in> pluginChannels s"
  by (auto simp: canForwardPluginMessage_def knownChannels_def Let_def)

section \<open>A player without a backend\<close>

text \<open>
  Claim C10. While the player has no current server connection, or that one has no
  backend connection, a \<open>Chat\<close> and a plugin message leave the whole state as it
  was: no event is fired, no command invoked, nothing queued, nothing written.
\<close>

theorem no_backend_discards:
  assumes "connectedServer' s = None \<or>
           (\<exists>a. connectedServer' s = Some a \<and> connection (servers s a) = None)"
  shows "handleChat ext allowed p s = s \<and> handlePluginMessage ext allowed' m s = Some s"
  using assms
  by (auto simp: handleChat_def handlePluginMessage_def connectedServer_def)

theorem no_backend_discards_witness:
  "(connectedServer' (session0\<lparr>connectedServer' := Some 3\<rparr>) = None \<or>
      (\<exists>a. connectedServer' (session0\<lparr>connectedServer' := Some 3\<rparr>) = Some a \<and>
           connection (servers (session0\<lparr>connectedServer' := Some 3\<rparr>) a) = None)) \<and>
   handleChat ext0 True \<lparr>Message = ''/glist'', Type = ChatMessage, Sender = None\<rparr>
     (session0\<lparr>connectedServer' := Some 3\<rparr>) = session0\<lparr>connectedServer' := Some 3\<rparr> \<and>
   handlePluginMessage ext0 True \<lparr>Channel = ''minecraft:register'', Data = []\<rparr>
     (session0\<lparr>connectedServer' := Some 3\<rparr>) = Some (session0\<lparr>connectedServer' := Some 3\<rparr>)"
proof -
  have h: "connectedServer' (session0\<lparr>connectedServer' := Some 3\<rparr>) = None \<or>
      (\<exists>a. connectedServer' (session0\<lparr>connectedServer' := Some 3\<rparr>) = Some a \<and>
           connection (servers (session0\<lparr>connectedServer' := Some 3\<rparr>) a) = None)"
    by (simp add: session0_def noServer_def)
  show ?thesis
    using h no_backend_discards [OF h, of ext0 True
        "\<lparr>Message = ''/glist'', Type = ChatMessage, Sender = None\<rparr>" True
        "\<lparr>Channel = ''minecraft:register'', Data = []\<rparr>"]
    by blast
qed


section \<open>Examples of the handlers at work\<close>

lemma conn0_WritePacket [simp]:
  "WritePacket p conn0 = (None, conn0\<lparr>wire := [p]\<rparr>)"
  by (simp add: conn0_def WritePacket_def BufferPacket_def Closed_def flush_def
      SetWriteDeadline_def encoder_Sync_Flush_def encoder_WritePacket_def transport_def
      closeOnErr_def Let_def)

lemma session0_server [simp]:
  "connectedServer' session0 = Some 10" "servers session0 10 = server0" "servers session0 20 = server0"
  "connection server0 = Some conn0" "state conn0 = Play" "closed conn0 = False"
  by (simp_all add: session0_def server0_def conn0_def)

lemma registerFoo_channels: "plugin_Channels ext0 registerFoo = [''a:b'']"
  by (simp add: ext0_def registerFoo_def)

theorem handleChat_forwards_long_message:
  "length longMessage = 257 \<and>
   backendWire 10 (handleChat ext0 True \<lparr>Message = longMessage, Type = ChatMessage, Sender = None\<rparr> session0)
     = [ChatPacket \<lparr>Message = longMessage, Type = ChatMessage, Sender = None\<rparr>]"
  by (simp add: handleChat_def connectedServer_def HasPrefix_def longMessage_def event_Fire_def
      record_call_def Active_def Closed_def forwardChat_def onServerConn_def backendWire_def
      session0_def)

lemma SpoofChatInput_rejects_long:
  "length input > 256 \<Longrightarrow> SpoofChatInput input s = (Some ErrTooLongChatMessage, s)"
  by (simp add: SpoofChatInput_def MaxServerBoundMessageLength_def)

lemma SpoofChatInput_writes_short:
  "length input \<le> 256 \<Longrightarrow>
   backendWire 10 (snd (SpoofChatInput input session0))
     = [ChatPacket \<lparr>Message = input, Type = ChatMessage, Sender = None\<rparr>]"
  by (simp add: SpoofChatInput_def MaxServerBoundMessageLength_def ensureBackendConnection_def
      onServerConn_def backendWire_def)

section \<open>Channel registration from the client\<close>

text \<open>
  What the two branches do for every state: the known channels change only after a
  failed write, and then only if a read lock is held on \<open>pluginChannelsMu\<close>.
\<close>

lemma handlePluginMessage_Register:
  assumes "connectedServer' s = Some a" and "connection (servers s a) = Some c"
    and "state c = Play" and "plugin_Register ext m"
  shows "handlePluginMessage ext allowed m s =
     (if fst (WritePacket (PluginMessagePacket m) c) = None
      then Some (snd (onServerConn a (WritePacket (PluginMessagePacket m)) s))
      else lockedKnownChannels (\<lambda>known. known \<union> set (plugin_Channels ext m))
             (snd (onServerConn a (WritePacket (PluginMessagePacket m)) s)))"
  using assms
  by (simp add: handlePluginMessage_def connectedServer_def onServerConn_def case_prod_beta Let_def)

lemma handlePluginMessage_Unregister:
  assumes "connectedServer' s = Some a" and "connection (servers s a) = Some c"
    and "state c = Play" and "\<not> plugin_Register ext m" and "plugin_Unregister ext m"
  shows "handlePluginMessage ext allowed m s =
     (if fst (WritePacket (PluginMessagePacket m) c) = None
      then Some (snd (onServerConn a (WritePacket (PluginMessagePacket m)) s))
      else lockedKnownChannels (\<lambda>known. known - set (plugin_Channels ext m))
             (snd (onServerConn a (WritePacket (PluginMessagePacket m)) s)))"
  using assms
  by (simp add: handlePluginMessage_def connectedServer_def onServerConn_def case_prod_beta Let_def)

lemma onServerConn_pluginChannels [simp]:
  "pluginChannels (snd (onServerConn a f s)) = pluginChannels s"
  "pluginChannelsMu (snd (onServerConn a f s)) = pluginChannelsMu s"
  by (simp_all add: onServerConn_def case_prod_beta Let_def split: option.split)

lemma register_success_leaves_channels:
  assumes "connectedServer' s = Some a" and "connection (servers s a) = Some c"
    and "state c = Play" and "plugin_Register ext m \<or> plugin_Unregister ext m"
    and "fst (WritePacket (PluginMessagePacket m) c) = None"
  shows "map_option pluginChannels (handlePluginMessage ext allowed m s) = Some (pluginChannels s)"
proof (cases "plugin_Register ext m")
  case True
  then show ?thesis using assms by (simp add: handlePluginMessage_Register)
next
  case False
  then show ?thesis using assms by (simp add: handlePluginMessage_Unregister)
qed

text \<open>
  Claim C1, at a concrete input. The client registers channel \<open>a:b\<close>; the backend
  is in Play state. When the write succeeds the message is on the backend's wire and
  the known channels are still empty. When the write fails, the channel is inserted
  if a read lock is held, and with no read lock held \<open>RUnlock\<close> stops the program.
\<close>

theorem register_not_recorded_on_success:
  "plugin_Register ext0 registerFoo \<and> plugin_Channels ext0 registerFoo = [''a:b''] \<and>
   map_option (backendWire 10) (handlePluginMessage ext0 True registerFoo session0)
     = Some [PluginMessagePacket registerFoo] \<and>
   map_option pluginChannels (handlePluginMessage ext0 True registerFoo session0) = Some {} \<and>
   map_option pluginChannels (handlePluginMessage ext0 True registerFoo (brokenBackend 1))
     = Some {''a:b''} \<and>
   map_option (backendWire 10) (handlePluginMessage ext0 True registerFoo (brokenBackend 1))
     = Some [] \<and>
   handlePluginMessage ext0 True registerFoo (brokenBackend 0) = None"
proof -
  have r: "plugin_Register ext0 registerFoo"
    by (simp add: ext0_def registerFoo_def)
  have ok: "handlePluginMessage ext0 True registerFoo session0
      = Some (snd (onServerConn 10 (WritePacket (PluginMessagePacket registerFoo)) session0))"
    using r by (simp add: handlePluginMessage_Register [where a = 10 and c = conn0])
  have w: "WritePacket (PluginMessagePacket registerFoo) (conn0\<lparr>net := [False]\<rparr>)
      = (Some ErrTransport, conn0\<lparr>net := [], closeOnce := True, knownDisconnect := True,
           cancelled := True, closed := True, disconnectedCalls := 1\<rparr>)"
    by (simp add: conn0_def WritePacket_def BufferPacket_def Closed_def flush_def
      SetWriteDeadline_def encoder_Sync_Flush_def encoder_WritePacket_def transport_def
      closeOnErr_def close_def closeKnown_def net_Close_def Let_def)
  have b: "connectedServer' (brokenBackend n) = Some 10"
    "connection (servers (brokenBackend n) 10) = Some (conn0\<lparr>net := [False]\<rparr>)"
    "state (conn0\<lparr>net := [False]\<rparr>) = Play" for n
    by (simp_all add: brokenBackend_def session0_def server0_def conn0_def)
  have bad: "handlePluginMessage ext0 True registerFoo (brokenBackend n)
      = lockedKnownChannels (\<lambda>known. known \<union> set (plugin_Channels ext0 registerFoo))
          (snd (onServerConn 10 (WritePacket (PluginMessagePacket registerFoo)) (brokenBackend n)))" for n
    using r by (simp add: handlePluginMessage_Register [OF b] w)
  have pc: "pluginChannels (brokenBackend n) = {}" "pluginChannelsMu (brokenBackend n) = n" for n
    by (simp_all add: brokenBackend_def session0_def)
  have pc0: "pluginChannels session0 = {}" by (simp add: session0_def)
  have bw: "backendWire 10 (snd (onServerConn 10 (WritePacket (PluginMessagePacket registerFoo))
      (brokenBackend n))) = []" for n
    by (simp add: onServerConn_def b w backendWire_def) (simp add: conn0_def)
  have c1: "map_option (backendWire 10) (handlePluginMessage ext0 True registerFoo session0)
     = Some [PluginMessagePacket registerFoo]"
    by (simp add: ok onServerConn_def backendWire_def)
  have c2: "map_option pluginChannels (handlePluginMessage ext0 True registerFoo session0) = Some {}"
    by (simp add: ok pc0)
  have c3: "map_option pluginChannels (handlePluginMessage ext0 True registerFoo (brokenBackend 1))
     = Some {''a:b''}"
    by (simp add: bad lockedKnownChannels_def pc registerFoo_channels Let_def)
  have c4: "map_option (backendWire 10) (handlePluginMessage ext0 True registerFoo (brokenBackend 1))
     = Some []"
    using bw [of 1] by (simp add: bad lockedKnownChannels_def pc Let_def backendWire_def)
  have c5: "handlePluginMessage ext0 True registerFoo (brokenBackend 0) = None"
    by (simp add: bad lockedKnownChannels_def pc)
  show ?thesis
    using r registerFoo_channels c1 c2 c3 c4 c5 by blast
qed


section \<open>Keep-alive and ping\<close>

lemma handleKeepAlive_dropped:
  assumes "connectedServer' s = None \<or>
           (\<exists>a. connectedServer' s = Some a \<and>
                (RandomId p \<noteq> lastPingId (servers s a) \<or> connection (servers s a) = None))"
  shows "handleKeepAlive now1 now2 p s = s"
  using assms by (auto simp: handleKeepAlive_def connectedServer_def)

lemma handleKeepAlive_matched:
  assumes "connectedServer' s = Some a" and "RandomId p = lastPingId (servers s a)"
    and "connection (servers s a) = Some c"
  shows "ping (handleKeepAlive now1 now2 p s)
           = time_Since now1 (time_Unix0 (lastPingSent (servers s a) * Millisecond))"
    and "connection (servers (handleKeepAlive now1 now2 p s) a)
           = Some (snd (WritePacket (KeepAlivePacket p) c))"
    and "lastPingSent (servers (handleKeepAlive now1 now2 p s) a)
           = (if fst (WritePacket (KeepAlivePacket p) c) = None
              then word_of_int (Nanosecond now2 div 1000000)
              else lastPingSent (servers s a))"
  using assms
  by (simp_all add: handleKeepAlive_def connectedServer_def onServerConn_def case_prod_beta Let_def)

text \<open>
  Claim C3, at a concrete input. The backend's last ping went out at millisecond
  1600000000000 with id 7; the client answers with id 7, 50 ms later, and the write
  to the backend succeeds one millisecond after that. The ping is 50 ms and the
  packet is on the backend's wire, but \<open>lastPingSent\<close> becomes 51, the millisecond
  within the current second, where the wall clock reads millisecond 1600000000051.
\<close>

theorem keepAlive_stores_millisecond_of_second:
  "ping (handleKeepAlive 1600000000050000000 1600000000051000000 \<lparr>RandomId = 7\<rparr> session0)
     = 50000000 \<and>
   backendWire 10 (handleKeepAlive 1600000000050000000 1600000000051000000 \<lparr>RandomId = 7\<rparr> session0)
     = [KeepAlivePacket \<lparr>RandomId = 7\<rparr>] \<and>
   lastPingSent (servers
       (handleKeepAlive 1600000000050000000 1600000000051000000 \<lparr>RandomId = 7\<rparr> session0) 10)
     = 51 \<and>
   (1600000000051000000 :: int) div 1000000 = 1600000000051"
proof -
  have m: "connectedServer' session0 = Some 10"
    "RandomId \<lparr>RandomId = 7\<rparr> = lastPingId (servers session0 10)"
    "connection (servers session0 10) = Some conn0"
    by (simp_all add: server0_def)
  have sent: "lastPingSent server0 = 1600000000000"
    by (simp add: server0_def)
  have t: "time_Unix0 ((1600000000000 :: int64) * Millisecond) = 1600000000000000000"
    by (simp add: time_Unix0_def Millisecond_def)
  show ?thesis
    using handleKeepAlive_matched [OF m, of 1600000000050000000 1600000000051000000]
    by (simp add: sent t time_Since_def Nanosecond_def backendWire_def)
qed

section \<open>The server switch (\<open>handleBackendJoinGame\<close>)\<close>

lemma completeJoins_simps [simp]:
  "completeJoins [] = []"
  "completeJoins (xs @ ys) = completeJoins xs @ completeJoins ys"
  "completeJoins [CompleteJoin a] = [a]"
  "completeJoins [Disconnect a] = []"
  "completeJoins [UnregisterConnection] = []"
  "completeJoins [OnFirstJoin] = []"
  "completeJoins [Fire e] = []"
  "completeJoins (x # y # zs) = completeJoins [x] @ completeJoins (y # zs)"
  by (simp_all add: completeJoins_def List.map_filter_def)

lemma teardown_completeJoins [simp]:
  "completeJoins (calls (teardown s)) = completeJoins (calls s)"
  by (simp add: teardown_calls split: option.split)

lemma teardown_protocol [simp]: "protocol (conn (teardown s)) = protocol (conn s)"
  by simp

lemma stepperI: "(\<And>s. sessionOK d s \<Longrightarrow> step d s (f s)) \<Longrightarrow> stepper d f"
  by (simp add: stepper_def)

lemma stepperD: "stepper d f \<Longrightarrow> sessionOK d s \<Longrightarrow> step d s (f s)"
  by (simp add: stepper_def)

lemma step_trans:
  "step d s (None, s1) \<Longrightarrow> step d s1 r \<Longrightarrow> step d s r"
  by (auto simp: step_def)

lemma stepper_orReturn:
  assumes "stepper d f" and "stepper d g"
  shows "stepper d (orReturn f g)"
proof (rule stepperI)
  fix s assume ok: "sessionOK d s"
  obtain e s1 where r: "f s = (e, s1)" by (cases "f s")
  have st: "step d s (e, s1)" using stepperD [OF assms(1) ok] r by simp
  show "step d s (orReturn f g s)"
  proof (cases e)
    case None
    have "sessionOK d s1" using st by (simp add: step_def)
    then have "step d s1 (g s1)" by (rule stepperD [OF assms(2)])
    with st None r show ?thesis by (simp add: orReturn_def step_trans)
  next
    case (Some x)
    with st r show ?thesis by (simp add: orReturn_def)
  qed
qed

lemma stepper_onPlayerConn:
  assumes "\<And>c. connOK c \<Longrightarrow> reports c (f c)"
  shows "stepper d (onPlayerConn f)"
proof (rule stepperI)
  fix s assume ok: "sessionOK d s"
  then have "connOK (conn s)" by (simp add: sessionOK_def)
  then have r: "reports (conn s) (f (conn s))" by (rule assms)
  show "step d s (onPlayerConn f s)"
    using r ok
    by (auto simp: step_def onPlayerConn_def case_prod_beta Let_def reports_def evolves_def
        sessionOK_def connOK_def backendClosed_def split: option.splits)
qed

lemma stepper_onServerConn:
  assumes "\<And>c. connOK c \<Longrightarrow> reports c (f c)"
  shows "stepper d (onServerConn d f)"
proof (rule stepperI)
  fix s assume ok: "sessionOK d s"
  then obtain c where c: "connection (servers s d) = Some c" "connOK c"
    by (auto simp: sessionOK_def split: option.splits)
  have r: "reports c (f c)" using c(2) by (rule assms)
  show "step d s (onServerConn d f s)"
    using r ok c
    by (auto simp: step_def onServerConn_def case_prod_beta Let_def reports_def evolves_def
        sessionOK_def connOK_def backendClosed_def)
qed

lemma BufferPacket_reports': "connOK c \<Longrightarrow> reports c (BufferPacket p c)"
  by (simp add: connOK_def BufferPacket_reports)

lemma flush_reports': "connOK c \<Longrightarrow> reports c (flush c)"
  by (simp add: connOK_def flush_reports)

lemma stepper_prims:
  "stepper d (onPlayerConn (BufferPacket p))"
  "stepper d (onPlayerConn flush)"
  "stepper d (onServerConn d (BufferPacket p))"
  "stepper d (onServerConn d flush)"
proof -
  show "stepper d (onPlayerConn (BufferPacket p))"
    by (rule stepper_onPlayerConn) (rule BufferPacket_reports')
  show "stepper d (onPlayerConn flush)"
    by (rule stepper_onPlayerConn) (rule flush_reports')
  show "stepper d (onServerConn d (BufferPacket p))"
    by (rule stepper_onServerConn) (rule BufferPacket_reports')
  show "stepper d (onServerConn d flush)"
    by (rule stepper_onServerConn) (rule flush_reports')
qed

lemma stepper_skip: "stepper d (\<lambda>s. (None, s))"
  by (simp add: stepper_def step_def)

lemma stepper_record_OnFirstJoin: "stepper d (\<lambda>s. (None, record_call OnFirstJoin s))"
  by (simp add: stepper_def step_def record_call_def sessionOK_def)

lemma step_after_update:
  assumes "step d s' r" and "sessionOK d s \<Longrightarrow> sessionOK d s'"
    and "connectedServer' s' = connectedServer' s" and "calls s' = calls s"
    and "protocol (conn s') = protocol (conn s)" and "spawned s' \<or> \<not> spawned s"
  shows "step d s r"
  using assms by (auto simp: step_def)

lemma stepper_spawnPackets: "stepper d (spawnPackets v j)"
proof (rule stepperI)
  fix s assume ok: "sessionOK d s"
  let ?s = "s\<lparr>spawned := True\<rparr>"
  have ok': "sessionOK d ?s" using ok by (simp add: sessionOK_def)
  have a: "stepper d (orReturn (onPlayerConn (BufferPacket (JoinGamePacket j)))
             (\<lambda>s1. (None, record_call OnFirstJoin s1)))"
    by (intro stepper_orReturn stepper_prims stepper_record_OnFirstJoin)
  have b: "stepper d (orReturn (onPlayerConn (BufferPacket (JoinGamePacket j)))
             (orReturn
                (if Lower v Minecraft_1_16
                 then onPlayerConn (BufferPacket (RespawnPacket
                        (if Dimension j = 0 then (newRespawn j)\<lparr>rDimension := - 1\<rparr>
                         else newRespawn j)))
                 else (\<lambda>s1. (None, s1)))
                (onPlayerConn (BufferPacket (RespawnPacket
                   ((newRespawn j)\<lparr>rDimension := Dimension j\<rparr>))))))"
    by (cases "Lower v Minecraft_1_16")
      (simp_all add: stepper_orReturn stepper_prims stepper_skip)
  have "step d ?s (spawnPackets v j s)"
    using stepperD [OF a ok'] stepperD [OF b ok']
    by (simp add: spawnPackets_def Let_def)
  then show "step d s (spawnPackets v j s)"
    by (rule step_after_update) (simp_all add: ok')
qed

lemma stepper_sendKnownChannels: "stepper d (sendKnownChannels ext d mc)"
proof (rule stepperI)
  fix s assume ok: "sessionOK d s"
  show "step d s (sendKnownChannels ext d mc s)"
    using stepperD [OF stepper_prims(3) ok] stepperD [OF stepper_skip ok]
    by (simp add: sendKnownChannels_def Let_def)
qed

lemma step_drain:
  "sessionOK d s \<Longrightarrow> step d s (drainLoginPluginMessages d q s)"
proof (induction q arbitrary: s)
  case Nil
  then show ?case using stepperD [OF stepper_skip] by simp
next
  case (Cons pm q)
  let ?s = "s\<lparr>loginPluginMessages := q\<rparr>"
  have ok': "sessionOK d ?s" using Cons.prems by (simp add: sessionOK_def)
  obtain e s1 where r: "onServerConn d (BufferPacket (PluginMessagePacket pm)) ?s = (e, s1)"
    by (cases "onServerConn d (BufferPacket (PluginMessagePacket pm)) ?s")
  have st: "step d ?s (e, s1)"
    using stepperD [OF stepper_prims(3) [where p = "PluginMessagePacket pm"] ok'] r by simp
  have "step d ?s (drainLoginPluginMessages d (pm # q) s)"
  proof (cases e)
    case None
    have "sessionOK d s1" using st by (simp add: step_def)
    then have "step d s1 (drainLoginPluginMessages d q s1)" by (rule Cons.IH)
    with st None r show ?thesis by (simp add: step_trans)
  next
    case (Some x)
    with st r show ?thesis by simp
  qed
  then show ?case by (rule step_after_update) (simp_all add: ok')
qed

lemma stepper_drain: "stepper d (\<lambda>s. drainLoginPluginMessages d (loginPluginMessages s) s)"
  by (rule stepperI) (rule step_drain)

lemma stepper_resetTitle: "stepper d (resetTitle ext v)"
proof (rule stepperI)
  fix s assume ok: "sessionOK d s"
  show "step d s (resetTitle ext v s)"
    using stepperD [OF stepper_prims(1) ok] stepperD [OF stepper_skip ok]
    by (simp add: resetTitle_def)
qed

lemma handleBackendJoinGame_ceremony:
  "handleBackendJoinGame ext j d s =
     (case ensureConnected d s of
        None \<Rightarrow> (False, s)
      | Some mc \<Rightarrow>
          (case ceremony ext j d mc (protocol (conn s)) s of
             (None, s') \<Rightarrow> (True, completeJoin d s')
           | (Some e, s') \<Rightarrow> (False, s')))"
  by (simp add: handleBackendJoinGame_def ceremony_def orReturn_def Let_def
      split: option.split prod.split)

lemma stepper_ceremony: "stepper d (ceremony ext j d mc v)"
  unfolding ceremony_def
  by (intro stepper_orReturn stepper_spawnPackets stepper_sendKnownChannels stepper_drain
      stepper_resetTitle stepper_prims)

lemma orReturn_success:
  assumes "orReturn f g s = (None, s2)"
  obtains s1 where "f s = (None, s1)" and "g s1 = (None, s2)"
  using assms by (auto simp: orReturn_def split: prod.splits option.splits)

lemma adds_refl: "adds [] [] s s"
  by (simp add: adds_def)

lemma adds_trans:
  "adds ps cs s s1 \<Longrightarrow> adds ps' cs' s1 s2 \<Longrightarrow> adds (ps @ ps') (cs @ cs') s s2"
  by (simp add: adds_def)

lemma BufferPacket_ok_flags:
  "fst (BufferPacket p c) = None \<Longrightarrow>
     disconnectedCalls (snd (BufferPacket p c)) = disconnectedCalls c \<and>
     closed (snd (BufferPacket p c)) = False"
  by (simp add: BufferPacket_def Closed_def encoder_WritePacket_def transport_def
      closeOnErr_def Let_def split: list.splits if_splits)

lemma flush_ok_flags:
  "fst (flush c) = None \<Longrightarrow>
     disconnectedCalls (snd (flush c)) = disconnectedCalls c \<and>
     closed (snd (flush c)) = False"
  by (simp add: flush_def SetWriteDeadline_def encoder_Sync_Flush_def transport_def
      closeOnErr_def Let_def split: list.splits if_splits)

lemma onPlayerConn_Buffer_success:
  assumes "onPlayerConn (BufferPacket p) s = (None, s1)"
  shows "adds [p] [] s s1"
proof -
  have n: "fst (BufferPacket p (conn s)) = None"
    using assms by (simp add: onPlayerConn_def case_prod_beta Let_def)
  have "s1 = s\<lparr>conn := snd (BufferPacket p (conn s))\<rparr>"
    using assms BufferPacket_ok_flags [OF n]
    by (simp add: onPlayerConn_def case_prod_beta Let_def)
  then show ?thesis using BufferPacket_ok [OF n] by (simp add: adds_def clientOut_def)
qed

lemma onPlayerConn_flush_success:
  assumes "onPlayerConn flush s = (None, s1)"
  shows "adds [] [] s s1 \<and> writeBuf (conn s1) = [] \<and> \<not> closed (conn s1)"
proof -
  have n: "fst (flush (conn s)) = None"
    using assms by (simp add: onPlayerConn_def case_prod_beta Let_def)
  have "s1 = s\<lparr>conn := snd (flush (conn s))\<rparr>"
    using assms flush_ok_flags [OF n]
    by (simp add: onPlayerConn_def case_prod_beta Let_def)
  then show ?thesis using flush_ok [OF n] flush_ok_flags [OF n] by (simp add: adds_def clientOut_def)
qed

lemma onServerConn_frame:
  "conn (snd (onServerConn a f s)) = conn s"
  "calls (snd (onServerConn a f s)) = calls s"
  "spawned (snd (onServerConn a f s)) = spawned s"
  by (simp_all add: onServerConn_def case_prod_beta Let_def split: option.split)

lemma onServerConn_adds: "onServerConn a f s = (e, s1) \<Longrightarrow> adds [] [] s s1"
  using onServerConn_frame [of a f s] by (simp add: adds_def clientOut_def)

lemma onServerConn_flush_success:
  assumes "onServerConn d flush s = (None, s1)"
  shows "\<not> backendClosed d s1"
proof (cases "connection (servers s d)")
  case None
  with assms show ?thesis by (simp add: onServerConn_def)
next
  case (Some c)
  with assms have n: "fst (flush c) = None"
    by (simp add: onServerConn_def case_prod_beta Let_def)
  have "connection (servers s1 d) = Some (snd (flush c))"
    using assms Some by (auto simp: onServerConn_def case_prod_beta Let_def)
  then show ?thesis using flush_ok_flags [OF n] by (simp add: backendClosed_def)
qed

lemma drain_adds:
  "drainLoginPluginMessages d q s = (e, s1) \<Longrightarrow> adds [] [] s s1"
proof (induction q arbitrary: s)
  case Nil
  then show ?case by (simp add: adds_def)
next
  case (Cons pm q)
  let ?s = "s\<lparr>loginPluginMessages := q\<rparr>"
  obtain e' s' where r: "onServerConn d (BufferPacket (PluginMessagePacket pm)) ?s = (e', s')"
    by (cases "onServerConn d (BufferPacket (PluginMessagePacket pm)) ?s")
  have a: "adds [] [] ?s s'" using r by (rule onServerConn_adds)
  have "adds [] [] ?s s1"
  proof (cases e')
    case None
    then have "drainLoginPluginMessages d q s' = (e, s1)" using Cons.prems r by simp
    then have "adds [] [] s' s1" by (rule Cons.IH)
    with a show ?thesis using adds_trans by fastforce
  next
    case (Some x)
    then show ?thesis using Cons.prems r a by simp
  qed
  then show ?case by (simp add: adds_def clientOut_def)
qed

lemma sendKnownChannels_adds:
  "sendKnownChannels ext d mc s = (e, s1) \<Longrightarrow> adds [] [] s s1"
  by (auto simp: sendKnownChannels_def Let_def adds_refl dest: onServerConn_adds split: if_splits)

lemma resetTitle_success:
  "resetTitle ext v s = (None, s1) \<Longrightarrow> adds (titleList ext v) [] s s1"
  by (auto simp: resetTitle_def titleList_def adds_refl dest: onPlayerConn_Buffer_success
      split: if_splits)

lemma adds_after_spawned:
  "adds ps cs (s\<lparr>spawned := b\<rparr>) s1 \<Longrightarrow> adds ps cs s s1"
  by (simp add: adds_def clientOut_def)

lemma spawnPackets_success:
  assumes "spawnPackets v j s = (None, s1)"
  shows "adds (spawnList v j (spawned s)) (if spawned s then [] else [OnFirstJoin]) s s1"
proof (cases "spawned s")
  case False
  let ?s = "s\<lparr>spawned := True\<rparr>"
  from assms False have "orReturn (onPlayerConn (BufferPacket (JoinGamePacket j)))
      (\<lambda>s1. (None, record_call OnFirstJoin s1)) ?s = (None, s1)"
    by (simp add: spawnPackets_def)
  then obtain s' where a: "onPlayerConn (BufferPacket (JoinGamePacket j)) ?s = (None, s')"
    and b: "s1 = record_call OnFirstJoin s'"
    by (auto elim!: orReturn_success)
  have "adds [JoinGamePacket j] [] ?s s'" using a by (rule onPlayerConn_Buffer_success)
  then have "adds [JoinGamePacket j] [OnFirstJoin] ?s s1"
    using b by (simp add: adds_def clientOut_def record_call_def)
  then show ?thesis using False by (simp add: spawnList_def adds_after_spawned)
next
  case True
  let ?s = "s\<lparr>spawned := True\<rparr>"
  let ?r1 = "RespawnPacket (if Dimension j = 0 then (newRespawn j)\<lparr>rDimension := - 1\<rparr>
                            else newRespawn j)"
  let ?r2 = "RespawnPacket ((newRespawn j)\<lparr>rDimension := Dimension j\<rparr>)"
  let ?mid = "if Lower v Minecraft_1_16 then onPlayerConn (BufferPacket ?r1)
              else (\<lambda>s1. (None, s1))"
  from assms True have "orReturn (onPlayerConn (BufferPacket (JoinGamePacket j)))
      (orReturn ?mid (onPlayerConn (BufferPacket ?r2))) ?s = (None, s1)"
    by (simp add: spawnPackets_def Let_def)
  then obtain sa sb where a: "onPlayerConn (BufferPacket (JoinGamePacket j)) ?s = (None, sa)"
    and b: "?mid sa = (None, sb)"
    and c: "onPlayerConn (BufferPacket ?r2) sb = (None, s1)"
    by (elim orReturn_success)
  have A: "adds [JoinGamePacket j] [] ?s sa" using a by (rule onPlayerConn_Buffer_success)
  have B: "adds (if Lower v Minecraft_1_16 then [?r1] else []) [] sa sb"
    using b by (auto simp: adds_refl dest: onPlayerConn_Buffer_success split: if_splits)
  have C: "adds [?r2] [] sb s1" using c by (rule onPlayerConn_Buffer_success)
  have "adds ([JoinGamePacket j] @ (if Lower v Minecraft_1_16 then [?r1] else []) @ [?r2]) [] ?s s1"
    using adds_trans [OF A adds_trans [OF B C]] by simp
  then show ?thesis using True by (simp add: spawnList_def adds_after_spawned)
qed

lemma ceremony_success:
  assumes "ceremony ext j d mc v s = (None, s')"
  shows "wire (conn s') = clientOut s @ spawnList v j (spawned s) @ titleList ext v"
    and "writeBuf (conn s') = []"
    and "calls s' = calls s @ (if spawned s then [] else [OnFirstJoin])"
    and "\<not> closed (conn s')" and "\<not> backendClosed d s'"
proof -
  from assms obtain s1 s2 s3 s4 s5 where
    r1: "spawnPackets v j s = (None, s1)" and
    r2: "sendKnownChannels ext d mc s1 = (None, s2)" and
    r3: "drainLoginPluginMessages d (loginPluginMessages s2) s2 = (None, s3)" and
    r4: "resetTitle ext v s3 = (None, s4)" and
    r5: "onPlayerConn flush s4 = (None, s5)" and
    r6: "onServerConn d flush s5 = (None, s')"
    unfolding ceremony_def by (elim orReturn_success)
  note a1 = spawnPackets_success [OF r1]
  note a2 = sendKnownChannels_adds [OF r2]
  note a3 = drain_adds [OF r3]
  note a4 = resetTitle_success [OF r4]
  note a5 = onPlayerConn_flush_success [OF r5]
  note a6 = onServerConn_adds [OF r6]
  have all: "adds (spawnList v j (spawned s) @ titleList ext v)
      (if spawned s then [] else [OnFirstJoin]) s s'"
    using adds_trans [OF a1 adds_trans [OF a2 adds_trans [OF a3 adds_trans [OF a4
      adds_trans [OF conjunct1 [OF a5] a6]]]]]
    by simp
  have c: "conn s' = conn s5" using onServerConn_frame(1) [of d flush s5] r6 by simp
  show "writeBuf (conn s') = []" using a5 c by simp
  then show "wire (conn s') = clientOut s @ spawnList v j (spawned s) @ titleList ext v"
    using all by (simp add: adds_def clientOut_def)
  show "calls s' = calls s @ (if spawned s then [] else [OnFirstJoin])"
    using all by (simp add: adds_def)
  show "\<not> closed (conn s')" using a5 c by simp
  show "\<not> backendClosed d s'" using r6 by (rule onServerConn_flush_success)
qed

lemma newRespawn_mirror:
  "newRespawn j = mirrorRespawn j 0"
  "(newRespawn j)\<lparr>rDimension := dim\<rparr> = mirrorRespawn j dim"
  by (simp_all add: newRespawn_def mirrorRespawn_def split: option.split)

lemma spawnList_cases:
  "spawnList v j False = [JoinGamePacket j]"
  "Lower v Minecraft_1_16 \<Longrightarrow> Dimension j = 0 \<Longrightarrow>
     spawnList v j True = [JoinGamePacket j, RespawnPacket (mirrorRespawn j (- 1)),
                           RespawnPacket (mirrorRespawn j 0)]"
  "Lower v Minecraft_1_16 \<Longrightarrow> Dimension j \<noteq> 0 \<Longrightarrow>
     spawnList v j True = [JoinGamePacket j, RespawnPacket (mirrorRespawn j 0),
                           RespawnPacket (mirrorRespawn j (Dimension j))]"
  "GreaterEqual v Minecraft_1_16 \<Longrightarrow>
     spawnList v j True = [JoinGamePacket j, RespawnPacket (mirrorRespawn j (Dimension j))]"
  by (simp_all add: spawnList_def newRespawn_def mirrorRespawn_def Lower_def GreaterEqual_def
      split: option.split)

lemma handleBackendJoinGame_success:
  assumes "handleBackendJoinGame ext j d s = (True, s')"
  shows "wire (conn s') = clientOut s @ spawnList (protocol (conn s)) j (spawned s)
                            @ titleList ext (protocol (conn s))"
    and "calls s' = calls s @ (if spawned s then [] else [OnFirstJoin]) @ [CompleteJoin d]"
    and "connectedServer' s' = Some d"
    and "\<not> closed (conn s')" and "\<not> backendClosed d s'"
proof -
  from assms obtain mc s1 where
    c: "ceremony ext j d mc (protocol (conn s)) s = (None, s1)" and s': "s' = completeJoin d s1"
    by (auto simp: handleBackendJoinGame_ceremony split: option.splits prod.splits)
  note f = ceremony_success [OF c]
  show "wire (conn s') = clientOut s @ spawnList (protocol (conn s)) j (spawned s)
                            @ titleList ext (protocol (conn s))"
    using f(1) s' by (simp add: completeJoin_def record_call_def)
  show "calls s' = calls s @ (if spawned s then [] else [OnFirstJoin]) @ [CompleteJoin d]"
    using f(3) s' by (simp add: completeJoin_def record_call_def)
  show "connectedServer' s' = Some d"
    using s' by (simp add: completeJoin_def record_call_def)
  show "\<not> closed (conn s')" using f(4) s' by (simp add: completeJoin_def record_call_def)
  show "\<not> backendClosed d s'"
    using f(5) s' by (simp add: completeJoin_def record_call_def backendClosed_def)
qed

lemma handleBackendJoinGame_failure:
  assumes "closed (conn s) = closeOnce (conn s)"
    and "case connection (servers s d) of None \<Rightarrow> True | Some c \<Rightarrow> closed c = closeOnce c"
    and "handleBackendJoinGame ext j d s = (False, s')"
  shows "connectedServer' s' = connectedServer' s \<and>
         completeJoins (calls s') = completeJoins (calls s) \<and>
         (connection (servers s d) = None \<or> closed (conn s') \<or> backendClosed d s')"
proof (cases "connection (servers s d)")
  case None
  then have "s' = s" using assms(3) by (simp add: handleBackendJoinGame_def ensureConnected_def)
  then show ?thesis using None by simp
next
  case (Some mc)
  then have ok: "sessionOK d s" using assms(1,2) by (simp add: sessionOK_def connOK_def)
  obtain e s1 where c: "ceremony ext j d mc (protocol (conn s)) s = (e, s1)"
    by (cases "ceremony ext j d mc (protocol (conn s)) s")
  have "step d s (ceremony ext j d mc (protocol (conn s)) s)"
    using stepper_ceremony ok by (rule stepperD)
  then have st: "step d s (e, s1)" using c by simp
  have "e \<noteq> None \<and> s' = s1"
    using assms(3) Some c
    by (auto simp: handleBackendJoinGame_ceremony ensureConnected_def split: option.splits)
  then show ?thesis using st by (auto simp: step_def)
qed

text \<open>
  Claim C5. On connections whose once and closed flag agree,
  \<open>handleBackendJoinGame\<close> returns true exactly when the destination has a backend
  connection and both connections are open afterwards. Every \<open>BufferPacket\<close> and
  \<open>flush\<close> reports an error exactly when it leaves its connection closed, and a
  closed connection stays closed, so this is: exactly when every \<open>BufferPacket\<close>
  and both flushes succeeded. With true, \<open>completeJoin\<close> has been called once more,
  on the destination, which is now the current server; with false,
  \<open>completeJoin\<close> was not called and the current server is the one before.
\<close>

theorem joinGame_completes_iff_io_succeeds:
  assumes "closed (conn s) = closeOnce (conn s)"
    and "case connection (servers s d) of None \<Rightarrow> True | Some c \<Rightarrow> closed c = closeOnce c"
  shows "(fst (handleBackendJoinGame ext j d s) \<longleftrightarrow>
            connection (servers s d) \<noteq> None \<and>
            \<not> closed (conn (snd (handleBackendJoinGame ext j d s))) \<and>
            \<not> backendClosed d (snd (handleBackendJoinGame ext j d s))) \<and>
         (fst (handleBackendJoinGame ext j d s) \<longrightarrow>
            connectedServer' (snd (handleBackendJoinGame ext j d s)) = Some d \<and>
            completeJoins (calls (snd (handleBackendJoinGame ext j d s)))
              = completeJoins (calls s) @ [d]) \<and>
         (\<not> fst (handleBackendJoinGame ext j d s) \<longrightarrow>
            connectedServer' (snd (handleBackendJoinGame ext j d s)) = connectedServer' s \<and>
            completeJoins (calls (snd (handleBackendJoinGame ext j d s)))
              = completeJoins (calls s))"
proof (cases "fst (handleBackendJoinGame ext j d s)")
  case True
  then have r: "handleBackendJoinGame ext j d s = (True, snd (handleBackendJoinGame ext j d s))"
    by (simp add: prod_eq_iff)
  have "connection (servers s d) \<noteq> None"
    using r by (auto simp: handleBackendJoinGame_def ensureConnected_def split: option.splits)
  then show ?thesis
    using True handleBackendJoinGame_success [OF r] by simp
next
  case False
  then have r: "handleBackendJoinGame ext j d s = (False, snd (handleBackendJoinGame ext j d s))"
    by (simp add: prod_eq_iff)
  show ?thesis
    using False handleBackendJoinGame_failure [OF assms r] by auto
qed


lemma healthy_BufferPacket:
  "\<not> closed c \<Longrightarrow> net c = [] \<Longrightarrow> BufferPacket p c = (None, c\<lparr>writeBuf := writeBuf c @ [p]\<rparr>)"
  by (simp add: BufferPacket_def Closed_def encoder_WritePacket_def closeOnErr_def)

lemma healthy_flush:
  "\<not> closed c \<Longrightarrow> net c = [] \<Longrightarrow>
     flush c = (None, c\<lparr>wire := wire c @ writeBuf c, writeBuf := []\<rparr>)"
  by (simp add: flush_def SetWriteDeadline_def encoder_Sync_Flush_def closeOnErr_def)

lemma conn0_fields [simp]:
  "closed conn0 = False" "closeOnce conn0 = False" "net conn0 = []" "wire conn0 = []"
  "writeBuf conn0 = []" "protocol conn0 = 578" "disconnectedCalls conn0 = 0"
  by (simp_all add: conn0_def)

lemma session0_fields [simp]:
  "conn session0 = conn0" "spawned session0 = True" "calls session0 = []"
  "pluginChannels session0 = {}" "loginPluginMessages session0 = []"
  by (simp_all add: session0_def)

lemma switch0_handled:
  "fst (handleBackendJoinGame ext0 joinGame0 20 (session0\<lparr>spawned := sp\<rparr>))"
  by (simp add: handleBackendJoinGame_def ensureConnected_def spawnPackets_def orReturn_def
      onPlayerConn_def onServerConn_def healthy_BufferPacket healthy_flush
      sendKnownChannels_def knownChannels_def resetTitle_def Let_def
      GreaterEqual_def Lower_def Minecraft_1_8_def Minecraft_1_16_def
      ext0_def server0_def record_call_def completeJoin_def)

lemma switch0_refused:
  "\<not> fst (handleBackendJoinGame ext0 joinGame0 20 (session0\<lparr>conn := conn0\<lparr>net := [False]\<rparr>\<rparr>))"
  by (simp add: handleBackendJoinGame_def ensureConnected_def spawnPackets_def orReturn_def
      onPlayerConn_def BufferPacket_def Closed_def encoder_WritePacket_def transport_def
      closeOnErr_def close_def closeKnown_def net_Close_def Let_def server0_def)

lemma keepsD: "keeps f \<Longrightarrow> spawned s \<Longrightarrow> spawned (snd (f s))"
  by (simp add: keeps_def)

lemma keeps_orReturn: "keeps f \<Longrightarrow> keeps g \<Longrightarrow> keeps (orReturn f g)"
  by (auto simp: keeps_def orReturn_def split: prod.splits option.splits)

lemma keeps_onPlayerConn: "keeps (onPlayerConn f)"
  by (simp add: keeps_def onPlayerConn_def case_prod_beta Let_def)

lemma keeps_onServerConn: "keeps (onServerConn a f)"
  by (simp add: keeps_def onServerConn_frame)

lemma keeps_skip: "keeps (\<lambda>s. (None, s))" "keeps (\<lambda>s. (None, record_call x s))"
  by (simp_all add: keeps_def record_call_def)

lemma spawned_drain:
  "spawned s \<Longrightarrow> spawned (snd (drainLoginPluginMessages d q s))"
proof (induction q arbitrary: s)
  case Nil
  then show ?case by simp
next
  case (Cons pm q)
  let ?r = "onServerConn d (BufferPacket (PluginMessagePacket pm)) (s\<lparr>loginPluginMessages := q\<rparr>)"
  have "spawned (snd ?r)" using Cons.prems by (simp add: onServerConn_frame)
  then show ?case using Cons.IH [of "snd ?r"]
    by (cases ?r) (auto split: option.splits)
qed

lemma keeps_rest:
  "keeps (orReturn (sendKnownChannels ext d mc)
          (orReturn (\<lambda>s. drainLoginPluginMessages d (loginPluginMessages s) s)
             (orReturn (resetTitle ext v)
                (orReturn (onPlayerConn flush) (onServerConn d flush)))))"
proof -
  have a: "keeps (sendKnownChannels ext d mc)"
    by (simp add: keeps_def sendKnownChannels_def Let_def onServerConn_frame)
  have b: "keeps (\<lambda>s. drainLoginPluginMessages d (loginPluginMessages s) s)"
    by (simp add: keeps_def spawned_drain)
  have c: "keeps (resetTitle ext v)"
    using keeps_onPlayerConn by (simp add: keeps_def resetTitle_def)
  show ?thesis
    by (intro keeps_orReturn a b c keeps_onPlayerConn keeps_onServerConn)
qed

lemma spawned_spawnPackets: "spawned (snd (spawnPackets v j s))"
proof -
  have a: "keeps (orReturn (onPlayerConn (BufferPacket (JoinGamePacket j)))
             (\<lambda>s1. (None, record_call OnFirstJoin s1)))"
    by (intro keeps_orReturn keeps_onPlayerConn keeps_skip)
  have m: "keeps (if Lower v Minecraft_1_16
                 then onPlayerConn (BufferPacket (RespawnPacket
                        (if Dimension j = 0 then (newRespawn j)\<lparr>rDimension := - 1\<rparr>
                         else newRespawn j)))
                 else (\<lambda>s1. (None, s1)))"
    by (simp add: keeps_onPlayerConn keeps_skip)
  have b: "keeps (orReturn (onPlayerConn (BufferPacket (JoinGamePacket j)))
             (orReturn
                (if Lower v Minecraft_1_16
                 then onPlayerConn (BufferPacket (RespawnPacket
                        (if Dimension j = 0 then (newRespawn j)\<lparr>rDimension := - 1\<rparr>
                         else newRespawn j)))
                 else (\<lambda>s1. (None, s1)))
                (onPlayerConn (BufferPacket (RespawnPacket
                   ((newRespawn j)\<lparr>rDimension := Dimension j\<rparr>))))))"
    by (intro keeps_orReturn keeps_onPlayerConn m)
  have t: "spawned (s\<lparr>spawned := True\<rparr>)" by simp
  show ?thesis
    using keepsD [OF a t] keepsD [OF b t] by (simp add: spawnPackets_def Let_def)
qed

lemma spawned_ceremony: "spawned (snd (ceremony ext j d mc v s))"
proof -
  obtain e s1 where r: "spawnPackets v j s = (e, s1)" by (cases "spawnPackets v j s")
  then have sp: "spawned s1" using spawned_spawnPackets [of v j s] by simp
  show ?thesis
  proof (cases e)
    case None
    then show ?thesis
      using r keepsD [OF keeps_rest sp, of ext d mc v]
      by (simp add: ceremony_def orReturn_def [of "spawnPackets v j"])
  next
    case (Some x)
    then show ?thesis using r sp by (simp add: ceremony_def orReturn_def [of "spawnPackets v j"])
  qed
qed

lemma spawned_handleBackendJoinGame:
  "spawned s \<or> connection (servers s d) \<noteq> None \<Longrightarrow>
     spawned (snd (handleBackendJoinGame ext j d s))"
proof (cases "connection (servers s d)")
  case None
  assume "spawned s \<or> connection (servers s d) \<noteq> None"
  then show ?thesis using None by (simp add: handleBackendJoinGame_def ensureConnected_def)
next
  case (Some mc)
  show ?thesis
    using spawned_ceremony [of ext j d mc "protocol (conn s)" s] Some
    by (cases "ceremony ext j d mc (protocol (conn s)) s")
      (auto simp: handleBackendJoinGame_ceremony ensureConnected_def completeJoin_def
        record_call_def split: option.splits)
qed

lemma switch_handled:
  "fst (handleBackendJoinGame ext0 j 20 (player0 v sp))"
  by (simp add: handleBackendJoinGame_def ensureConnected_def spawnPackets_def orReturn_def
      onPlayerConn_def onServerConn_def healthy_BufferPacket healthy_flush player0_def
      sendKnownChannels_def knownChannels_def resetTitle_def Let_def
      ext0_def server0_def record_call_def completeJoin_def)

text \<open>
  Claim C2. A later join (\<open>spawned\<close> already set) on a protocol below 1.16 with
  \<open>Dimension = 0\<close> hands the client exactly \<open>JoinGame\<close>, \<open>Respawn\<close> at
  dimension -1 and \<open>Respawn\<close> at dimension 0, in this order; on 1.16 and above
  exactly \<open>JoinGame\<close> and one \<open>Respawn\<close> at the dimension of the \<open>JoinGame\<close>;
  below 1.16 with another dimension, \<open>JoinGame\<close>, \<open>Respawn\<close> at dimension 0 and
  \<open>Respawn\<close> at the dimension of the \<open>JoinGame\<close>. Every \<open>Respawn\<close> is the mirror
  of the \<open>JoinGame\<close> with \<open>ShouldKeepPlayerData = false\<close>. This is what the
  JoinGame/Respawn stage buffers (\<open>spawnPackets\<close> without error), and when the
  whole ceremony succeeds it is what the client has received since the call, followed
  only by the title reset of the ceremony's fifth step when the protocol is 1.8 or
  later.
\<close>

theorem switch_respawn_sequence:
  assumes "spawned s"
  shows
    "(Lower (protocol (conn s)) Minecraft_1_16 \<and> Dimension j = 0 \<longrightarrow>
        (spawnPackets (protocol (conn s)) j s = (None, s1) \<longrightarrow>
           clientOut s1 = clientOut s @
             [JoinGamePacket j, RespawnPacket (mirrorRespawn j (- 1)),
              RespawnPacket (mirrorRespawn j 0)]) \<and>
        (handleBackendJoinGame ext j d s = (True, s') \<longrightarrow>
           wire (conn s') = clientOut s @
             [JoinGamePacket j, RespawnPacket (mirrorRespawn j (- 1)),
              RespawnPacket (mirrorRespawn j 0)] @
             (if GreaterEqual (protocol (conn s)) Minecraft_1_8
              then [TitlePacket (packet_NewResetTitle ext (protocol (conn s)))] else []))) \<and>
     (GreaterEqual (protocol (conn s)) Minecraft_1_16 \<longrightarrow>
        (spawnPackets (protocol (conn s)) j s = (None, s1) \<longrightarrow>
           clientOut s1 = clientOut s @
             [JoinGamePacket j, RespawnPacket (mirrorRespawn j (Dimension j))]) \<and>
        (handleBackendJoinGame ext j d s = (True, s') \<longrightarrow>
           wire (conn s') = clientOut s @
             [JoinGamePacket j, RespawnPacket (mirrorRespawn j (Dimension j)),
              TitlePacket (packet_NewResetTitle ext (protocol (conn s)))])) \<and>
     (Lower (protocol (conn s)) Minecraft_1_16 \<and> Dimension j \<noteq> 0 \<longrightarrow>
        (spawnPackets (protocol (conn s)) j s = (None, s1) \<longrightarrow>
           clientOut s1 = clientOut s @
             [JoinGamePacket j, RespawnPacket (mirrorRespawn j 0),
              RespawnPacket (mirrorRespawn j (Dimension j))]) \<and>
        (handleBackendJoinGame ext j d s = (True, s') \<longrightarrow>
           wire (conn s') = clientOut s @
             [JoinGamePacket j, RespawnPacket (mirrorRespawn j 0),
              RespawnPacket (mirrorRespawn j (Dimension j))] @
             (if GreaterEqual (protocol (conn s)) Minecraft_1_8
              then [TitlePacket (packet_NewResetTitle ext (protocol (conn s)))] else [])))"
proof -
  let ?v = "protocol (conn s)"
  have st: "spawnPackets ?v j s = (None, s1) \<Longrightarrow> clientOut s1 = clientOut s @ spawnList ?v j True"
    using spawnPackets_success [of ?v j s s1] assms by (simp add: adds_def)
  have wh: "handleBackendJoinGame ext j d s = (True, s') \<Longrightarrow>
      wire (conn s') = clientOut s @ spawnList ?v j True @ titleList ext ?v"
    using handleBackendJoinGame_success(1) [of ext j d s s'] assms by simp
  have t16: "GreaterEqual ?v Minecraft_1_16 \<Longrightarrow>
      titleList ext ?v = [TitlePacket (packet_NewResetTitle ext ?v)]"
    by (simp add: titleList_def GreaterEqual_def Minecraft_1_16_def Minecraft_1_8_def)
  show ?thesis
    using st wh t16 by (auto simp: spawnList_cases titleList_def)
qed

lemma player0_fields [simp]:
  "spawned (player0 v sp) = sp" "protocol (conn (player0 v sp)) = v"
  "clientOut (player0 v sp) = []" "calls (player0 v sp) = []"
  "connectedServer' (player0 v sp) = Some 10"
  "closed (conn (player0 v sp)) = False" "closeOnce (conn (player0 v sp)) = False"
  "connection (servers (player0 v sp) 20) = Some conn0"
  by (simp_all add: player0_def clientOut_def server0_def)

lemma switch_result:
  "handleBackendJoinGame ext0 j 20 (player0 v sp)
     = (True, snd (handleBackendJoinGame ext0 j 20 (player0 v sp)))"
  using switch_handled [of j v sp] by (simp add: prod_eq_iff)

theorem switch_respawn_sequence_witness:
  "spawned (player0 Minecraft_1_15_2 True) \<and>
   Lower (protocol (conn (player0 Minecraft_1_15_2 True))) Minecraft_1_16 \<and>
   Dimension joinGame0 = 0 \<and>
   fst (handleBackendJoinGame ext0 joinGame0 20 (player0 Minecraft_1_15_2 True)) \<and>
   wire (conn (snd (handleBackendJoinGame ext0 joinGame0 20 (player0 Minecraft_1_15_2 True))))
     = [JoinGamePacket joinGame0, RespawnPacket (mirrorRespawn joinGame0 (- 1)),
        RespawnPacket (mirrorRespawn joinGame0 0),
        TitlePacket (packet_NewResetTitle ext0 Minecraft_1_15_2)] \<and>
   GreaterEqual (protocol (conn (player0 Minecraft_1_16 True))) Minecraft_1_16 \<and>
   wire (conn (snd (handleBackendJoinGame ext0 (joinGame0\<lparr>Dimension := 2\<rparr>) 20
                     (player0 Minecraft_1_16 True))))
     = [JoinGamePacket (joinGame0\<lparr>Dimension := 2\<rparr>),
        RespawnPacket (mirrorRespawn (joinGame0\<lparr>Dimension := 2\<rparr>) 2),
        TitlePacket (packet_NewResetTitle ext0 Minecraft_1_16)]"
proof -
  have a: "spawned (player0 Minecraft_1_15_2 True)" "spawned (player0 Minecraft_1_16 True)"
    by simp_all
  have l: "Lower (protocol (conn (player0 Minecraft_1_15_2 True))) Minecraft_1_16"
    by (simp add: Lower_def Minecraft_1_15_2_def Minecraft_1_16_def)
  have g: "GreaterEqual (protocol (conn (player0 Minecraft_1_16 True))) Minecraft_1_16"
    by (simp add: GreaterEqual_def)
  have g8: "GreaterEqual (protocol (conn (player0 Minecraft_1_15_2 True))) Minecraft_1_8"
    by (simp add: GreaterEqual_def Minecraft_1_15_2_def Minecraft_1_8_def)
  have d: "Dimension joinGame0 = 0" "Dimension (joinGame0\<lparr>Dimension := 2\<rparr>) = 2"
    by (simp_all add: joinGame0_def)
  note t1 = switch_respawn_sequence [OF a(1), of joinGame0 _ ext0 20
      "snd (handleBackendJoinGame ext0 joinGame0 20 (player0 Minecraft_1_15_2 True))"]
  note t2 = switch_respawn_sequence [OF a(2), of "joinGame0\<lparr>Dimension := 2\<rparr>" _ ext0 20
      "snd (handleBackendJoinGame ext0 (joinGame0\<lparr>Dimension := 2\<rparr>) 20 (player0 Minecraft_1_16 True))"]
  have w1: "wire (conn (snd (handleBackendJoinGame ext0 joinGame0 20 (player0 Minecraft_1_15_2 True))))
     = [JoinGamePacket joinGame0, RespawnPacket (mirrorRespawn joinGame0 (- 1)),
        RespawnPacket (mirrorRespawn joinGame0 0),
        TitlePacket (packet_NewResetTitle ext0 Minecraft_1_15_2)]"
    using t1 l d(1) g8 switch_result [of joinGame0 Minecraft_1_15_2 True] by simp
  have w2: "wire (conn (snd (handleBackendJoinGame ext0 (joinGame0\<lparr>Dimension := 2\<rparr>) 20
                     (player0 Minecraft_1_16 True))))
     = [JoinGamePacket (joinGame0\<lparr>Dimension := 2\<rparr>),
        RespawnPacket (mirrorRespawn (joinGame0\<lparr>Dimension := 2\<rparr>) 2),
        TitlePacket (packet_NewResetTitle ext0 Minecraft_1_16)]"
    using t2 g d(2) switch_result [of "joinGame0\<lparr>Dimension := 2\<rparr>" Minecraft_1_16 True] by simp
  show ?thesis
    using a(1) l d(1) switch_handled [of joinGame0 Minecraft_1_15_2 True] w1 g w2 by blast
qed

lemma switch_refused:
  "\<not> fst (handleBackendJoinGame ext0 joinGame0 20 brokenPlayer)"
  by (simp add: brokenPlayer_def switch0_refused)

lemma brokenPlayer_fields [simp]:
  "closed (conn brokenPlayer) = False" "closeOnce (conn brokenPlayer) = False"
  "connection (servers brokenPlayer 20) = Some conn0"
  "connectedServer' brokenPlayer = Some 10" "calls brokenPlayer = []"
  by (simp_all add: brokenPlayer_def server0_def)

theorem joinGame_completes_iff_io_succeeds_witness:
  "closed (conn (player0 Minecraft_1_15_2 True)) = closeOnce (conn (player0 Minecraft_1_15_2 True)) \<and>
   connection (servers (player0 Minecraft_1_15_2 True) 20) = Some conn0 \<and>
   closed conn0 = closeOnce conn0 \<and>
   fst (handleBackendJoinGame ext0 joinGame0 20 (player0 Minecraft_1_15_2 True)) \<and>
   connectedServer' (snd (handleBackendJoinGame ext0 joinGame0 20 (player0 Minecraft_1_15_2 True)))
     = Some 20 \<and>
   completeJoins (calls (snd (handleBackendJoinGame ext0 joinGame0 20 (player0 Minecraft_1_15_2 True))))
     = [20] \<and>
   \<not> fst (handleBackendJoinGame ext0 joinGame0 20 brokenPlayer) \<and>
   closed (conn (snd (handleBackendJoinGame ext0 joinGame0 20 brokenPlayer))) \<and>
   connectedServer' (snd (handleBackendJoinGame ext0 joinGame0 20 brokenPlayer)) = Some 10 \<and>
   completeJoins (calls (snd (handleBackendJoinGame ext0 joinGame0 20 brokenPlayer))) = []"
proof -
  have h1: "closed (conn (player0 Minecraft_1_15_2 True)) = closeOnce (conn (player0 Minecraft_1_15_2 True))"
    by simp
  have h2: "case connection (servers (player0 Minecraft_1_15_2 True) 20) of
              None \<Rightarrow> True | Some c \<Rightarrow> closed c = closeOnce c"
    by simp
  have k1: "closed (conn brokenPlayer) = closeOnce (conn brokenPlayer)" by simp
  have k2: "case connection (servers brokenPlayer 20) of
              None \<Rightarrow> True | Some c \<Rightarrow> closed c = closeOnce c"
    by simp
  note t1 = joinGame_completes_iff_io_succeeds [OF h1 h2, of ext0 joinGame0]
  note t2 = joinGame_completes_iff_io_succeeds [OF k1 k2, of ext0 joinGame0]
  have bo: "\<not> backendClosed 20 (snd (handleBackendJoinGame ext0 joinGame0 20 brokenPlayer))"
    by (simp add: brokenPlayer_def handleBackendJoinGame_def ensureConnected_def spawnPackets_def
      orReturn_def onPlayerConn_def BufferPacket_def Closed_def encoder_WritePacket_def
      transport_def closeOnErr_def close_def closeKnown_def net_Close_def Let_def server0_def
      backendClosed_def)
  show ?thesis
    using h1 t1 t2 switch_handled [of joinGame0 Minecraft_1_15_2 True] switch_refused bo
    by simp
qed

lemma spawned_other_handlers:
  "spawned (handleChat ext allowed p s) = spawned s"
  "spawned (handleKeepAlive now1 now2 k s) = spawned s"
  "spawned (teardown s) = spawned s"
  by (simp_all add: handleChat_def handleKeepAlive_def forwardChat_def event_Fire_def
      record_call_def onServerConn_frame case_prod_beta Let_def split: option.split)

text \<open>
  Claim C6. On the first \<open>JoinGame\<close> (\<open>spawned\<close> still false) the JoinGame stage
  buffers the \<open>JoinGame\<close> alone and then calls \<open>onFirstJoin\<close>; when the whole
  ceremony succeeds the client has received the \<open>JoinGame\<close>, no \<open>Respawn\<close>, and
  after it only the title reset (protocol 1.8 or later), and the calls made are
  \<open>onFirstJoin\<close> and \<open>completeJoin\<close>. Once the destination was connected the
  flag is set whatever the outcome, no later \<open>JoinGame\<close> clears it, and a later
  successful one calls no \<open>onFirstJoin\<close> and sends a \<open>Respawn\<close> right after the
  \<open>JoinGame\<close>.
\<close>

theorem first_join_sequence:
  assumes "\<not> spawned s"
  shows
    "(spawnPackets (protocol (conn s)) j s = (None, s1) \<longrightarrow>
        clientOut s1 = clientOut s @ [JoinGamePacket j] \<and>
        calls s1 = calls s @ [OnFirstJoin] \<and> spawned s1) \<and>
     (handleBackendJoinGame ext j d s = (True, s') \<longrightarrow>
        wire (conn s') = clientOut s @ [JoinGamePacket j] @
          (if GreaterEqual (protocol (conn s)) Minecraft_1_8
           then [TitlePacket (packet_NewResetTitle ext (protocol (conn s)))] else []) \<and>
        calls s' = calls s @ [OnFirstJoin, CompleteJoin d] \<and> spawned s') \<and>
     (connection (servers s d) \<noteq> None \<longrightarrow>
        spawned (snd (handleBackendJoinGame ext j d s))) \<and>
     (\<forall>j2 d2 t. spawned t \<longrightarrow> spawned (snd (handleBackendJoinGame ext j2 d2 t))) \<and>
     (\<forall>j2 d2 t t'. spawned t \<and> handleBackendJoinGame ext j2 d2 t = (True, t') \<longrightarrow>
        calls t' = calls t @ [CompleteJoin d2] \<and>
        (\<exists>r rest. wire (conn t') = clientOut t @ JoinGamePacket j2 # RespawnPacket r # rest))"
proof -
  let ?v = "protocol (conn s)"
  have a: "clientOut s1 = clientOut s @ [JoinGamePacket j] \<and>
      calls s1 = calls s @ [OnFirstJoin] \<and> spawned s1"
    if "spawnPackets ?v j s = (None, s1)"
    using spawnPackets_success [OF that] assms spawned_spawnPackets [of ?v j s] that
    by (simp add: adds_def spawnList_def)
  have b: "wire (conn s') = clientOut s @ [JoinGamePacket j] @ titleList ext ?v \<and>
      calls s' = calls s @ [OnFirstJoin, CompleteJoin d] \<and> spawned s'"
    if "handleBackendJoinGame ext j d s = (True, s')"
  proof -
    have "connection (servers s d) \<noteq> None"
      using that by (auto simp: handleBackendJoinGame_def ensureConnected_def split: option.splits)
    then have "spawned (snd (handleBackendJoinGame ext j d s))"
      by (simp add: spawned_handleBackendJoinGame)
    then show ?thesis
      using handleBackendJoinGame_success(1,2) [OF that] assms that
      by (simp add: spawnList_def)
  qed
  have c: "calls t' = calls t @ [CompleteJoin d2] \<and>
      (\<exists>r rest. wire (conn t') = clientOut t @ JoinGamePacket j2 # RespawnPacket r # rest)"
    if "spawned t" "handleBackendJoinGame ext j2 d2 t = (True, t')" for j2 d2 t t'
    using handleBackendJoinGame_success(1,2) [OF that(2)] that(1)
    by (auto simp: spawnList_def)
  have d1: "connection (servers s d) \<noteq> None \<longrightarrow>
      spawned (snd (handleBackendJoinGame ext j d s))"
    by (simp add: spawned_handleBackendJoinGame)
  have d2: "\<forall>j2 d2 t. spawned t \<longrightarrow> spawned (snd (handleBackendJoinGame ext j2 d2 t))"
    by (simp add: spawned_handleBackendJoinGame)
  have c': "\<forall>j2 d2 t t'. spawned t \<and> handleBackendJoinGame ext j2 d2 t = (True, t') \<longrightarrow>
        calls t' = calls t @ [CompleteJoin d2] \<and>
        (\<exists>r rest. wire (conn t') = clientOut t @ JoinGamePacket j2 # RespawnPacket r # rest)"
    using c by blast
  have a': "spawnPackets ?v j s = (None, s1) \<longrightarrow>
        clientOut s1 = clientOut s @ [JoinGamePacket j] \<and>
        calls s1 = calls s @ [OnFirstJoin] \<and> spawned s1"
    using a by blast
  have b': "handleBackendJoinGame ext j d s = (True, s') \<longrightarrow>
        wire (conn s') = clientOut s @ [JoinGamePacket j] @
          (if GreaterEqual ?v Minecraft_1_8
           then [TitlePacket (packet_NewResetTitle ext ?v)] else []) \<and>
        calls s' = calls s @ [OnFirstJoin, CompleteJoin d] \<and> spawned s'"
    using b by (simp add: titleList_def)
  show ?thesis
    using a' b' d1 d2 c' by (intro conjI)
qed

theorem first_join_sequence_witness:
  "\<not> spawned (player0 Minecraft_1_15_2 False) \<and>
   fst (handleBackendJoinGame ext0 joinGame0 20 (player0 Minecraft_1_15_2 False)) \<and>
   wire (conn (snd (handleBackendJoinGame ext0 joinGame0 20 (player0 Minecraft_1_15_2 False))))
     = [JoinGamePacket joinGame0, TitlePacket (packet_NewResetTitle ext0 Minecraft_1_15_2)] \<and>
   calls (snd (handleBackendJoinGame ext0 joinGame0 20 (player0 Minecraft_1_15_2 False)))
     = [OnFirstJoin, CompleteJoin 20] \<and>
   spawned (snd (handleBackendJoinGame ext0 joinGame0 20 (player0 Minecraft_1_15_2 False)))"
proof -
  have h: "\<not> spawned (player0 Minecraft_1_15_2 False)" by simp
  have g8: "GreaterEqual (protocol (conn (player0 Minecraft_1_15_2 False))) Minecraft_1_8"
    by (simp add: GreaterEqual_def Minecraft_1_15_2_def Minecraft_1_8_def)
  note t = first_join_sequence [OF h, of joinGame0 _ ext0 20
      "snd (handleBackendJoinGame ext0 joinGame0 20 (player0 Minecraft_1_15_2 False))"]
  show ?thesis
    using h t g8 switch_result [of joinGame0 Minecraft_1_15_2 False]
      switch_handled [of joinGame0 Minecraft_1_15_2 False]
    by simp
qed

section \<open>Delivery of the backend's plugin messages\<close>

text \<open>
  Claim C7. For a protocol up to 1.12.2 or from 1.13 on (the proxy knows no protocol
  between the two), \<open>canForwardPluginMessage\<close> permits a plugin message from the
  backend exactly when its channel passes the test of the protocol's side (\<open>MC|\<close>,
  the legacy Forge handshake channel or a legacy Register/Unregister frame up to
  1.12.2, \<open>minecraft:\<close> from 1.13) or is in the player's known channels. Any other
  message is not delivered: the backend handler leaves the whole state as it was, so
  nothing reaches the player's connection and no event is fired; and whenever
  handling a message hands something to the player's connection, the message passed
  the test. This holds whatever the handler does with a permitted message.
\<close>

theorem canForwardPluginMessage_iff:
  assumes "v \<le> Minecraft_1_12_2 \<or> Minecraft_1_13 \<le> v"
  shows
    "(canForwardPluginMessage ext v m s \<longleftrightarrow>
        (v \<le> Minecraft_1_12_2 \<and>
           (HasPrefix (Channel m) ''MC|'' \<or>
            HasPrefix (Channel m) (forge_LegacyHandshakeChannel ext) \<or>
            plugin_LegacyRegister ext m \<or> plugin_LegacyUnregister ext m)) \<or>
        (Minecraft_1_13 \<le> v \<and> HasPrefix (Channel m) ''minecraft:'') \<or>
        Channel m \<in> pluginChannels s) \<and>
     (protocol (conn s) = v \<and>
      \<not> ((v \<le> Minecraft_1_12_2 \<and>
           (HasPrefix (Channel m) ''MC|'' \<or>
            HasPrefix (Channel m) (forge_LegacyHandshakeChannel ext) \<or>
            plugin_LegacyRegister ext m \<or> plugin_LegacyUnregister ext m)) \<or>
        (Minecraft_1_13 \<le> v \<and> HasPrefix (Channel m) ''minecraft:'') \<or>
        Channel m \<in> pluginChannels s) \<longrightarrow>
        backend_handlePluginMessage ext relay m s = s) \<and>
     (protocol (conn s) = v \<and>
      clientOut (backend_handlePluginMessage ext relay m s) \<noteq> clientOut s \<longrightarrow>
        (v \<le> Minecraft_1_12_2 \<and>
           (HasPrefix (Channel m) ''MC|'' \<or>
            HasPrefix (Channel m) (forge_LegacyHandshakeChannel ext) \<or>
            plugin_LegacyRegister ext m \<or> plugin_LegacyUnregister ext m)) \<or>
        (Minecraft_1_13 \<le> v \<and> HasPrefix (Channel m) ''minecraft:'') \<or>
        Channel m \<in> pluginChannels s)"
proof -
  have side: "Minecraft_1_12_2 < v \<longleftrightarrow> Minecraft_1_13 \<le> v"
    using assms by (auto simp: Minecraft_1_12_2_def Minecraft_1_13_def)
  have permit: "canForwardPluginMessage ext v m s \<longleftrightarrow>
        (v \<le> Minecraft_1_12_2 \<and>
           (HasPrefix (Channel m) ''MC|'' \<or>
            HasPrefix (Channel m) (forge_LegacyHandshakeChannel ext) \<or>
            plugin_LegacyRegister ext m \<or> plugin_LegacyUnregister ext m)) \<or>
        (Minecraft_1_13 \<le> v \<and> HasPrefix (Channel m) ''minecraft:'') \<or>
        Channel m \<in> pluginChannels s"
    using side by (simp add: canForwardPluginMessage_unfold)
  have dropped: "backend_handlePluginMessage ext relay m s = s"
    if "protocol (conn s) = v" and "\<not> canForwardPluginMessage ext v m s"
    using that by (simp add: backend_handlePluginMessage_def)
  have delivered: "canForwardPluginMessage ext v m s"
    if "protocol (conn s) = v"
      and "clientOut (backend_handlePluginMessage ext relay m s) \<noteq> clientOut s"
    using that by (auto simp: backend_handlePluginMessage_def split: if_splits)
  show ?thesis
    using permit dropped delivered by blast
qed

theorem canForwardPluginMessage_iff_witness:
  "(755 \<le> Minecraft_1_12_2 \<or> Minecraft_1_13 \<le> 755) \<and>
   protocol (conn (player0 755 True)) = 755 \<and>
   \<not> canForwardPluginMessage ext0 755 \<lparr>Channel = ''acme:telemetry'', Data = [CHR 0x01]\<rparr>
       (player0 755 True) \<and>
   backend_handlePluginMessage ext0 relayVerbatim
       \<lparr>Channel = ''acme:telemetry'', Data = [CHR 0x01]\<rparr> (player0 755 True)
     = player0 755 True \<and>
   canForwardPluginMessage ext0 755 \<lparr>Channel = ''minecraft:brand'', Data = []\<rparr>
       (player0 755 True) \<and>
   wire (conn (backend_handlePluginMessage ext0 relayVerbatim
       \<lparr>Channel = ''minecraft:brand'', Data = []\<rparr> (player0 755 True)))
     = [PluginMessagePacket \<lparr>Channel = ''minecraft:brand'', Data = []\<rparr>] \<and>
   canForwardPluginMessage ext0 340 \<lparr>Channel = ''FML|HS'', Data = []\<rparr> (player0 340 True)"
proof -
  have h: "(755::int) \<le> Minecraft_1_12_2 \<or> Minecraft_1_13 \<le> 755"
    by (simp add: Minecraft_1_13_def)
  have p: "(340::int) \<le> Minecraft_1_12_2 \<or> Minecraft_1_13 \<le> 340"
    by (simp add: Minecraft_1_12_2_def)
  have k: "pluginChannels (player0 v sp) = {}" for v sp
    by (simp add: player0_def)
  have pv: "protocol (conn (player0 755 True)) = 755" by simp
  note t1 = canForwardPluginMessage_iff [OF h, of ext0
      "\<lparr>Channel = ''acme:telemetry'', Data = [CHR 0x01]\<rparr>" "player0 755 True" relayVerbatim]
  note t2 = canForwardPluginMessage_iff [OF h, of ext0
      "\<lparr>Channel = ''minecraft:brand'', Data = []\<rparr>" "player0 755 True" relayVerbatim]
  note t3 = canForwardPluginMessage_iff [OF p, of ext0
      "\<lparr>Channel = ''FML|HS'', Data = []\<rparr>" "player0 340 True" relayVerbatim]
  have c1: "\<not> canForwardPluginMessage ext0 755
      \<lparr>Channel = ''acme:telemetry'', Data = [CHR 0x01]\<rparr> (player0 755 True)"
    using t1 by (simp add: k Minecraft_1_12_2_def Minecraft_1_13_def HasPrefix_def ext0_def)
  have c2: "backend_handlePluginMessage ext0 relayVerbatim
      \<lparr>Channel = ''acme:telemetry'', Data = [CHR 0x01]\<rparr> (player0 755 True) = player0 755 True"
    using t1 pv by (simp add: k Minecraft_1_12_2_def Minecraft_1_13_def HasPrefix_def ext0_def)
  have c3: "canForwardPluginMessage ext0 755 \<lparr>Channel = ''minecraft:brand'', Data = []\<rparr>
      (player0 755 True)"
    using t2 by (simp add: k Minecraft_1_12_2_def Minecraft_1_13_def HasPrefix_def ext0_def)
  have c4: "wire (conn (backend_handlePluginMessage ext0 relayVerbatim
       \<lparr>Channel = ''minecraft:brand'', Data = []\<rparr> (player0 755 True)))
     = [PluginMessagePacket \<lparr>Channel = ''minecraft:brand'', Data = []\<rparr>]"
    using c3
    by (simp add: backend_handlePluginMessage_def relayVerbatim_def onPlayerConn_def
        player0_def WritePacket_def BufferPacket_def Closed_def flush_def SetWriteDeadline_def
        encoder_Sync_Flush_def encoder_WritePacket_def closeOnErr_def Let_def)
  have c5: "canForwardPluginMessage ext0 340 \<lparr>Channel = ''FML|HS'', Data = []\<rparr> (player0 340 True)"
    using t3 by (simp add: k Minecraft_1_12_2_def Minecraft_1_13_def HasPrefix_def ext0_def)
  show ?thesis
    using h pv c1 c2 c3 c4 c5 by blast
qed

end
